theory Spec2Isabelle
  imports Main "HOL-Library.Sublist"
begin

section \<open>Values and outcomes\<close>

text \<open>
  The session record of \<^verbatim>\<open>session_manager.py\<close> is a dataclass whose fields are
  annotated \<^verbatim>\<open>str\<close>, \<^verbatim>\<open>int\<close> and \<^verbatim>\<open>List[str]\<close>. Where the code handles values by name
  (the dictionary of \<^verbatim>\<open>to_dict\<close>/\<^verbatim>\<open>from_dict\<close>, the keyword arguments of
  \<^verbatim>\<open>update_session\<close>) a value is one of these three shapes, or \<open>POther\<close>: any other
  Python value (None, a float, a bool, a nested or mixed list, a dict).

  A Python list is an object, and \<^verbatim>\<open>add_uploaded_video\<close> appends to the lists of a record in
  place. The records of this model hold their lists by value, which is what the code does
  as long as no list object is held in two places. \<open>PStrList xs\<close> is therefore a list of
  strings that nothing else refers to: a list written at the call, or one \<^verbatim>\<open>json.load\<close> has
  built. \<open>PSharedList\<close> is a list object that the caller keeps or that a record already
  holds (\<^verbatim>\<open>get_session(a).uploaded_videos\<close> passed on to \<^verbatim>\<open>update_session(b, ...)\<close>): stored
  in a record it would be shared, and a later append through one holder would show in the
  other. The model does not follow that.
\<close>

datatype pyval = PStr string | PInt int | PStrList "string list" | PSharedList | POther

text \<open>
  Python raises; the model returns the exception as a value. \<open>Unmodelled\<close> is not a Python
  outcome. Python checks no annotation at run time, so a value of the wrong shape would be
  stored in a field as it is, a shared list object would be stored as it is, and a method
  of the record could be overwritten by \<^verbatim>\<open>setattr\<close>; the typed record below can hold none
  of these. Where a run would do one of them, the model says \<open>Unmodelled\<close> instead of
  inventing a result.
\<close>

datatype exn = TypeError | ValueError | RuntimeError | OtherError

datatype 'a outcome = Returns 'a | Raises exn | Unmodelled

fun bind :: "'a outcome \<Rightarrow> ('a \<Rightarrow> 'b outcome) \<Rightarrow> 'b outcome" where
  "bind (Returns x) f = f x"
| "bind (Raises e) f = Raises e"
| "bind Unmodelled f = Unmodelled"

section \<open>The session record (session\_manager.py, SessionData)\<close>

record SessionData =
  session_id :: string
  scene_description :: string
  starting_image_path :: string
  prompts :: "string list"
  current_step :: int
  uploaded_videos :: "string list"
  last_frames :: "string list"
  num_clips :: int
  openai_api_key :: string

definition field_names :: "string list" where
  "field_names =
     [''session_id'', ''scene_description'', ''starting_image_path'', ''prompts'',
      ''current_step'', ''uploaded_videos'', ''last_frames'', ''num_clips'',
      ''openai_api_key'']"

text \<open>\<^verbatim>\<open>dataclasses.asdict\<close>: the nine fields by name.\<close>

definition asdict :: "SessionData \<Rightarrow> (string \<rightharpoonup> pyval)" where
  "asdict s =
     [''session_id'' \<mapsto> PStr (session_id s),
      ''scene_description'' \<mapsto> PStr (scene_description s),
      ''starting_image_path'' \<mapsto> PStr (starting_image_path s),
      ''prompts'' \<mapsto> PStrList (prompts s),
      ''current_step'' \<mapsto> PInt (current_step s),
      ''uploaded_videos'' \<mapsto> PStrList (uploaded_videos s),
      ''last_frames'' \<mapsto> PStrList (last_frames s),
      ''num_clips'' \<mapsto> PInt (num_clips s),
      ''openai_api_key'' \<mapsto> PStr (openai_api_key s)]"

text \<open>\<^verbatim>\<open>data.pop(key, None)\<close>: the dictionary without the key.\<close>

definition pop :: "('k \<rightharpoonup> 'v) \<Rightarrow> 'k \<Rightarrow> ('k \<rightharpoonup> 'v)" where
  "pop d k = d(k := None)"

definition to_dict :: "SessionData \<Rightarrow> (string \<rightharpoonup> pyval)" where
  "to_dict s = pop (asdict s) ''openai_api_key''"

fun the_str :: "pyval \<Rightarrow> string option" where
  "the_str (PStr x) = Some x"
| "the_str _ = None"

fun the_int :: "pyval \<Rightarrow> int option" where
  "the_int (PInt x) = Some x"
| "the_int _ = None"

fun the_strlist :: "pyval \<Rightarrow> string list option" where
  "the_strlist (PStrList x) = Some x"
| "the_strlist _ = None"

text \<open>
  \<^verbatim>\<open>cls(**data)\<close>: the generated constructor has nine parameters without defaults, so a
  missing or an unexpected key raises TypeError. With the nine keys present the record is
  built from the values; a value that is not of its field's annotated type is \<open>Unmodelled\<close>.
\<close>

definition cls :: "(string \<rightharpoonup> pyval) \<Rightarrow> SessionData outcome" where
  "cls data =
     (if dom data \<noteq> set field_names then Raises TypeError
      else
        (case
           Option.bind (Option.bind (data ''session_id'') the_str) (\<lambda>a.
           Option.bind (Option.bind (data ''scene_description'') the_str) (\<lambda>b.
           Option.bind (Option.bind (data ''starting_image_path'') the_str) (\<lambda>c.
           Option.bind (Option.bind (data ''prompts'') the_strlist) (\<lambda>d.
           Option.bind (Option.bind (data ''current_step'') the_int) (\<lambda>e.
           Option.bind (Option.bind (data ''uploaded_videos'') the_strlist) (\<lambda>f.
           Option.bind (Option.bind (data ''last_frames'') the_strlist) (\<lambda>g.
           Option.bind (Option.bind (data ''num_clips'') the_int) (\<lambda>h.
           Option.bind (Option.bind (data ''openai_api_key'') the_str) (\<lambda>i.
             Some \<lparr>session_id = a, scene_description = b, starting_image_path = c,
                   prompts = d, current_step = e, uploaded_videos = f, last_frames = g,
                   num_clips = h, openai_api_key = i\<rparr>)))))))))
         of None \<Rightarrow> Unmodelled | Some s \<Rightarrow> Returns s))"

definition from_dict :: "(string \<rightharpoonup> pyval) \<Rightarrow> SessionData outcome" where
  "from_dict data =
     cls (if ''openai_api_key'' \<notin> dom data then data(''openai_api_key'' \<mapsto> PStr '''')
          else data)"

section \<open>The session store (session\_manager.py, SessionManager)\<close>

text \<open>
  The store is the in-process dictionary and the directory of session files. A file is
  keyed by the identifier its name is built from (\<^verbatim>\<open>sessions_dir / f"{session_id}.json"\<close>).
  What \<^verbatim>\<open>json.load\<close> reads from it is a JSON object (\<open>Doc\<close>) or not (\<open>NotAnObject\<close>:
  text that is not JSON, or a JSON value that is not an object; \<^verbatim>\<open>json.load\<close> or
  \<^verbatim>\<open>from_dict\<close> raises on each of them). \<^verbatim>\<open>json.dump\<close> followed by \<^verbatim>\<open>json.load\<close> gives back
  a dictionary of strings, integers and lists of strings as it was, so the file holds the
  dictionary itself.

  \<^verbatim>\<open>_save_session\<close> opens the file for writing and dumps the dictionary into it; whatever
  is raised on the way is logged and swallowed. The file system decides how a write ends,
  so the end is a parameter of every operation that saves: \<open>Written\<close>, the file holds the
  dictionary; \<open>OpenFailed\<close>, the file could not be opened and is as it was;
  \<open>Truncated\<close>, the file was opened, which empties it, and the dump did not finish, so
  that it holds the beginning of the text at most, which is not a JSON object.
\<close>

datatype write_result = Written | OpenFailed | Truncated

datatype session_file = Doc "string \<rightharpoonup> pyval" | NotAnObject

record SessionManager =
  in_memory_sessions :: "string \<rightharpoonup> SessionData"
  session_files :: "string \<rightharpoonup> session_file"

definition save_session ::
  "write_result \<Rightarrow> SessionManager \<Rightarrow> SessionData \<Rightarrow> SessionManager" where
  "save_session w m session_data =
     (case w of
        Written \<Rightarrow>
          m\<lparr>session_files :=
              (session_files m)(session_id session_data \<mapsto> Doc (to_dict session_data))\<rparr>
      | OpenFailed \<Rightarrow> m
      | Truncated \<Rightarrow>
          m\<lparr>session_files := (session_files m)(session_id session_data \<mapsto> NotAnObject)\<rparr>)"

text \<open>\<open>uuid\<close> is the identifier \<^verbatim>\<open>str(uuid.uuid4())\<close> draws.\<close>

definition create_session ::
  "write_result \<Rightarrow> SessionManager \<Rightarrow> string \<Rightarrow> string \<Rightarrow> string \<Rightarrow> string list \<Rightarrow> int
     \<Rightarrow> string \<Rightarrow> string \<times> SessionManager" where
  "create_session w m uuid scene img ps n key =
     (let session_data =
            \<lparr>session_id = uuid, scene_description = scene, starting_image_path = img,
             prompts = ps, current_step = 1, uploaded_videos = [], last_frames = [],
             num_clips = n, openai_api_key = key\<rparr>;
          m1 = m\<lparr>in_memory_sessions := (in_memory_sessions m)(uuid \<mapsto> session_data)\<rparr>
      in (uuid, save_session w m1 session_data))"

definition get_session ::
  "SessionManager \<Rightarrow> string \<Rightarrow> (SessionData option \<times> SessionManager) outcome" where
  "get_session m sid =
     (case in_memory_sessions m sid of
        Some s \<Rightarrow> Returns (Some s, m)
      | None \<Rightarrow>
          (case session_files m sid of
             None \<Rightarrow> Returns (None, m)
           | Some NotAnObject \<Rightarrow> Returns (None, m)
           | Some (Doc data) \<Rightarrow>
               (case from_dict data of
                  Returns s \<Rightarrow>
                    Returns (Some s, m\<lparr>in_memory_sessions := (in_memory_sessions m)(sid \<mapsto> s)\<rparr>)
                | Raises e \<Rightarrow> Returns (None, m)
                | Unmodelled \<Rightarrow> Unmodelled)))"

text \<open>
  \<^verbatim>\<open>hasattr(session, key)\<close> holds for the nine fields, for the two methods of the class and
  for the attributes every object inherits. The last are taken to be the names that
  begin with two underscores: which of them exist is the interpreter's matter, and a name
  of this form that the record does not have, which the code skips, is not followed either.
  Setting a method or an inherited attribute is \<open>Unmodelled\<close>, as is setting a field to a
  value that is not of its type or to a shared list object.
\<close>

definition method_names :: "string list" where
  "method_names = [''to_dict'', ''from_dict'']"

definition is_field :: "string \<Rightarrow> bool" where
  "is_field key \<longleftrightarrow> key \<in> set field_names"

definition is_class_attribute :: "string \<Rightarrow> bool" where
  "is_class_attribute key \<longleftrightarrow> key \<in> set method_names \<or> take 2 key = ''__''"

definition hasattr :: "string \<Rightarrow> bool" where
  "hasattr key \<longleftrightarrow> is_field key \<or> is_class_attribute key"

definition setattr :: "SessionData \<Rightarrow> string \<Rightarrow> pyval \<Rightarrow> SessionData option" where
  "setattr s key v =
     (if key = ''session_id'' then map_option (\<lambda>x. s\<lparr>session_id := x\<rparr>) (the_str v)
      else if key = ''scene_description'' then
        map_option (\<lambda>x. s\<lparr>scene_description := x\<rparr>) (the_str v)
      else if key = ''starting_image_path'' then
        map_option (\<lambda>x. s\<lparr>starting_image_path := x\<rparr>) (the_str v)
      else if key = ''prompts'' then map_option (\<lambda>x. s\<lparr>prompts := x\<rparr>) (the_strlist v)
      else if key = ''current_step'' then map_option (\<lambda>x. s\<lparr>current_step := x\<rparr>) (the_int v)
      else if key = ''uploaded_videos'' then
        map_option (\<lambda>x. s\<lparr>uploaded_videos := x\<rparr>) (the_strlist v)
      else if key = ''last_frames'' then map_option (\<lambda>x. s\<lparr>last_frames := x\<rparr>) (the_strlist v)
      else if key = ''num_clips'' then map_option (\<lambda>x. s\<lparr>num_clips := x\<rparr>) (the_int v)
      else if key = ''openai_api_key'' then
        map_option (\<lambda>x. s\<lparr>openai_api_key := x\<rparr>) (the_str v)
      else None)"

text \<open>The loop \<^verbatim>\<open>for key, value in updates.items()\<close> of \<^verbatim>\<open>update_session\<close>.\<close>

fun update_fields :: "SessionData \<Rightarrow> (string \<times> pyval) list \<Rightarrow> SessionData outcome" where
  "update_fields s [] = Returns s"
| "update_fields s ((key, v) # updates) =
     (if hasattr key then
        (if is_field key then
           (case setattr s key v of
              Some s' \<Rightarrow> update_fields s' updates
            | None \<Rightarrow> Unmodelled)
         else Unmodelled)
      else update_fields s updates)"

text \<open>
  \<^verbatim>\<open>def update_session(self, session_id, **updates)\<close>: a keyword argument named like one
  of the two parameters is bound to that parameter, which the call has already given, so
  Python raises TypeError before the body runs. \<open>updates\<close> lists the keyword arguments in
  the order of the call.
\<close>

definition parameter_names :: "string list" where
  "parameter_names = [''self'', ''session_id'']"

definition update_session ::
  "write_result \<Rightarrow> SessionManager \<Rightarrow> string \<Rightarrow> (string \<times> pyval) list
     \<Rightarrow> (bool \<times> SessionManager) outcome" where
  "update_session w m sid updates =
     (if list_ex (\<lambda>(key, v). key \<in> set parameter_names) updates then Raises TypeError
      else
        bind (get_session m sid) (\<lambda>(session, m1).
          case session of
            None \<Rightarrow> Returns (False, m1)
          | Some s \<Rightarrow>
              bind (update_fields s updates) (\<lambda>s'.
                Returns (True,
                  save_session w
                    (m1\<lparr>in_memory_sessions := (in_memory_sessions m1)(sid \<mapsto> s')\<rparr>) s'))))"

definition add_uploaded_video ::
  "write_result \<Rightarrow> SessionManager \<Rightarrow> string \<Rightarrow> string \<Rightarrow> string
     \<Rightarrow> (bool \<times> SessionManager) outcome" where
  "add_uploaded_video w m sid video_path frame_path =
     bind (get_session m sid) (\<lambda>(session, m1).
       case session of
         None \<Rightarrow> Returns (False, m1)
       | Some s \<Rightarrow>
           (let s1 = s\<lparr>uploaded_videos := uploaded_videos s @ [video_path]\<rparr>;
                s2 = s1\<lparr>last_frames := last_frames s1 @ [frame_path]\<rparr>;
                s3 = (if current_step s2 < num_clips s2
                      then s2\<lparr>current_step := current_step s2 + 1\<rparr> else s2)
            in Returns (True,
                 save_session w
                   (m1\<lparr>in_memory_sessions := (in_memory_sessions m1)(sid \<mapsto> s3)\<rparr>) s3)))"

definition get_current_image_path ::
  "SessionManager \<Rightarrow> string \<Rightarrow> (string option \<times> SessionManager) outcome" where
  "get_current_image_path m sid =
     bind (get_session m sid) (\<lambda>(session, m1).
       case session of
         None \<Rightarrow> Returns (None, m1)
       | Some s \<Rightarrow>
           if current_step s = 1 then Returns (Some (starting_image_path s), m1)
           else if current_step s > 1 \<and> int (length (last_frames s)) \<ge> current_step s - 1
           then Returns (Some (last_frames s ! nat (current_step s - 2)), m1)
           else Returns (None, m1))"

definition is_complete :: "SessionManager \<Rightarrow> string \<Rightarrow> (bool \<times> SessionManager) outcome" where
  "is_complete m sid =
     bind (get_session m sid) (\<lambda>(session, m1).
       case session of
         None \<Rightarrow> Returns (False, m1)
       | Some s \<Rightarrow> Returns (int (length (uploaded_videos s)) \<ge> num_clips s, m1))"

section \<open>Strings\<close>

text \<open>
  \<open>string\<close> is a list of bytes: a Python \<^verbatim>\<open>str\<close> is held as its UTF-8 text. The
  functions below are Python's, those on letters (\<open>lower\<close>) for ASCII letters only.
  \<open>str_int\<close> is \<^verbatim>\<open>str\<close> on an integer, as an f-string formats it.
\<close>

definition digit_char :: "nat \<Rightarrow> char" where
  "digit_char d = ''0123456789'' ! d"

fun str_nat :: "nat \<Rightarrow> string" where
  "str_nat n = (if n < 10 then [digit_char n] else str_nat (n div 10) @ [digit_char (n mod 10)])"

declare str_nat.simps [simp del]

definition str_int :: "int \<Rightarrow> string" where
  "str_int i = (if i < 0 then CHR ''-'' # str_nat (nat (- i)) else str_nat (nat i))"

text \<open>The value of a decimal digit, to say that \<open>str_nat\<close> writes a number in base ten.\<close>

definition digit_value :: "char \<Rightarrow> nat" where
  "digit_value c = of_char c - 48"

definition py_range :: "int \<Rightarrow> int list" where
  "py_range n = map int [0..<nat n]"

text \<open>
  \<^verbatim>\<open>str.strip()\<close> removes from both ends the characters Python counts as whitespace:
  U+0009 to U+000D, U+001C to U+0020, U+0085, U+00A0, U+1680, U+2000 to U+200A, U+2028,
  U+2029, U+202F, U+205F and U+3000, here in UTF-8.
\<close>

definition whitespace :: "string list" where
  "whitespace =
     map (\<lambda>c. [c])
       [CHR 0x09, CHR 0x0A, CHR 0x0B, CHR 0x0C, CHR 0x0D, CHR 0x1C, CHR 0x1D, CHR 0x1E,
        CHR 0x1F, CHR 0x20] @
     [[CHR 0xC2, CHR 0x85], [CHR 0xC2, CHR 0xA0], [CHR 0xE1, CHR 0x9A, CHR 0x80]] @
     map (\<lambda>c. [CHR 0xE2, CHR 0x80, c])
       [CHR 0x80, CHR 0x81, CHR 0x82, CHR 0x83, CHR 0x84, CHR 0x85, CHR 0x86, CHR 0x87,
        CHR 0x88, CHR 0x89, CHR 0x8A, CHR 0xA8, CHR 0xA9, CHR 0xAF] @
     [[CHR 0xE2, CHR 0x81, CHR 0x9F], [CHR 0xE3, CHR 0x80, CHR 0x80]]"

function lstrip :: "string list \<Rightarrow> string \<Rightarrow> string" where
  "lstrip chars s =
     (case find (\<lambda>w. w \<noteq> [] \<and> prefix w s) chars of
        None \<Rightarrow> s
      | Some w \<Rightarrow> lstrip chars (drop (length w) s))"
  by pat_completeness auto

termination
  by (relation "measure (\<lambda>(chars, s). length s)") (auto simp add: find_Some_iff prefix_def)

declare lstrip.simps [simp del]

definition strip :: "string \<Rightarrow> string" where
  "strip s = rev (lstrip (map rev whitespace) (rev (lstrip whitespace s)))"

definition startswith :: "string \<Rightarrow> string \<Rightarrow> bool" where
  "startswith s p \<longleftrightarrow> prefix p s"

fun split_at :: "string \<Rightarrow> string \<Rightarrow> string \<Rightarrow> string list" where
  "split_at sep acc [] = [rev acc]"
| "split_at sep acc (c # cs) =
     (if sep \<noteq> [] \<and> prefix sep (c # cs)
      then rev acc # split_at sep [] (drop (length sep - 1) cs)
      else split_at sep (c # acc) cs)"

definition py_split :: "string \<Rightarrow> string \<Rightarrow> string list" where
  "py_split s sep = split_at sep [] s"

definition lower_char :: "char \<Rightarrow> char" where
  "lower_char c = (let n = (of_char c :: nat) in if 65 \<le> n \<and> n \<le> 90 then char_of (n + 32) else c)"

definition lower :: "string \<Rightarrow> string" where
  "lower s = map lower_char s"

section \<open>The prompt planner (prompt\_generator.py)\<close>

text \<open>What \<^verbatim>\<open>json.loads\<close> returns; a float is kept without its value.\<close>

datatype json =
  JNull | JBool bool | JInt int | JFloat | JStr string | JArr "json list"
  | JObj "(string \<times> json) list"

text \<open>
  The text-generation service is outside the program. \<open>Content c\<close> is a reply whose
  \<^verbatim>\<open>choices[0].message.content\<close> is the string \<open>c\<close>; \<open>RequestFailed e\<close> is every other
  end of the request: \<^verbatim>\<open>requests.post\<close> or \<^verbatim>\<open>response.json()\<close> raised, the status was not
  ok (RuntimeError), or the path to the content raised.
\<close>

datatype api_reply = RequestFailed exn | Content string

definition fence :: string where
  "fence = replicate 3 (CHR 0x60)"

text \<open>
  \<open>loads\<close> is \<^verbatim>\<open>json.loads\<close> (\<open>None\<close>: JSONDecodeError) and \<open>post\<close> the service, both
  parameters. The check on the parsed value is the code's own.
\<close>

definition call_openai_gpt ::
  "(string \<Rightarrow> json option) \<Rightarrow> (string \<Rightarrow> string \<Rightarrow> int \<Rightarrow> api_reply)
     \<Rightarrow> string \<Rightarrow> string \<Rightarrow> int \<Rightarrow> json list outcome" where
  "call_openai_gpt loads post api_key scene num =
     (case post api_key scene num of
        RequestFailed e \<Rightarrow> Raises e
      | Content content \<Rightarrow>
          if content = [] then Raises RuntimeError
          else
            (let c1 = strip content in
             bind
               (if startswith c1 fence then
                  (case py_split c1 fence of
                     _ # c2 # _ \<Rightarrow> Returns (if startswith c2 ''json'' then drop 4 c2 else c2)
                   | _ \<Rightarrow> Raises OtherError)
                else Returns c1)
               (\<lambda>c3.
                  case loads (strip c3) of
                    None \<Rightarrow> Raises RuntimeError
                  | Some (JArr ps) \<Rightarrow>
                      if int (length ps) \<noteq> num then Raises ValueError else Returns ps
                  | Some _ \<Rightarrow> Raises ValueError)))"

definition fallback_prompts :: "string \<Rightarrow> int \<Rightarrow> string list" where
  "fallback_prompts scene num =
     map (\<lambda>i. scene @ '' (deel '' @ str_int (i + 1) @ '' van '' @ str_int num @ '')'')
       (py_range num)"

definition generate_clip_plan ::
  "(string \<Rightarrow> json option) \<Rightarrow> (string \<Rightarrow> string \<Rightarrow> int \<Rightarrow> api_reply)
     \<Rightarrow> string \<Rightarrow> string \<Rightarrow> int \<Rightarrow> json list" where
  "generate_clip_plan loads post api_key scene num =
     (case call_openai_gpt loads post api_key scene num of
        Returns ps \<Rightarrow> ps
      | _ \<Rightarrow> map JStr (fallback_prompts scene num))"

section \<open>The request handlers (app.py)\<close>

text \<open>
  A handler returns the messages it flashes, the page it redirects to and the runs of the
  external media tool it made, in order. The tool and the file system are parameters:
  \<open>ffmpeg_ok c\<close> says that the run \<open>c\<close> exits with status 0, \<open>path_exists p\<close> that the
  file \<open>p\<close> is there, \<open>disk_write\<close> how a write of the session file ends, and
  \<open>path_str p\<close> is \<^verbatim>\<open>str(Path(p))\<close>, the platform's spelling of the path \<open>p\<close>. A path the
  handlers build is the string \<^verbatim>\<open>str(Path)\<close> gives for a plain identifier.

  Both handlers below do their work under \<^verbatim>\<open>except Exception\<close> and flash the text of what
  was raised. \<open>io_error ev step\<close> is \<open>Some msg\<close> when \<open>step\<close> raises an exception whose text
  is \<open>msg\<close>: \<open>SaveUpload\<close> is making the session's directory and saving the uploaded
  file in it, \<open>Launch c\<close> is starting the process of the run \<open>c\<close> (the tool is not
  installed), \<open>WriteList\<close> is resolving the paths of the clips and writing the list of
  them that the concatenation reads.
  A run that could not be started is not among the runs made.
\<close>

datatype route = Index | Plan string | Step string int | Combine string

datatype tool_call =
  StripAudio string string | ExtractLastFrame string string | ConcatVideos "string list" string

record response =
  flashes :: "(string \<times> string) list"
  redirect :: route
  tools :: "tool_call list"

datatype io_step = SaveUpload | Launch tool_call | WriteList

record env =
  ffmpeg_ok :: "tool_call \<Rightarrow> bool"
  path_exists :: "string \<Rightarrow> bool"
  disk_write :: write_result
  path_str :: "string \<Rightarrow> string"
  io_error :: "io_step \<Rightarrow> string option"

text \<open>
  How a run of the tool ends, in \<^verbatim>\<open>run_ffmpeg\<close> and in \<^verbatim>\<open>concat_videos\<close>: it exited with
  status 0 (\<open>Ran\<close>), its process could not be started and \<^verbatim>\<open>subprocess.run\<close> raised
  (\<open>NotStarted\<close>), or it exited with another status and the code raises a RuntimeError
  of its own (\<open>Failed\<close>).
\<close>

datatype tool_end = Ran | NotStarted string | Failed

definition run_tool :: "env \<Rightarrow> tool_call \<Rightarrow> tool_end" where
  "run_tool ev c =
     (case io_error ev (Launch c) of
        Some msg \<Rightarrow> NotStarted msg
      | None \<Rightarrow> if ffmpeg_ok ev c then Ran else Failed)"

definition ALLOWED_VIDEO_EXTENSIONS :: "string list" where
  "ALLOWED_VIDEO_EXTENSIONS = [''mp4'', ''mov'', ''avi'']"

definition UPLOAD_FOLDER :: string where
  "UPLOAD_FOLDER = ''uploads''"

definition path_join :: "string \<Rightarrow> string \<Rightarrow> string" where
  "path_join a b = a @ ''/'' @ b"

text \<open>\<^verbatim>\<open>filename.rsplit('.', 1)[1]\<close>, for a name with a dot: what follows the last dot.\<close>

definition after_last_dot :: "string \<Rightarrow> string" where
  "after_last_dot filename = rev (takeWhile (\<lambda>c. c \<noteq> CHR ''.'') (rev filename))"

definition allowed_file :: "string \<Rightarrow> string list \<Rightarrow> bool" where
  "allowed_file filename extensions \<longleftrightarrow>
     CHR ''.'' \<in> set filename \<and> lower (after_last_dot filename) \<in> set extensions"

text \<open>
  \<open>upload\<close>: \<open>video\<close> is the entry \<^verbatim>\<open>request.files['video']\<close> by its file name, \<open>None\<close>
  when the request has no such entry. \<open>processing_error\<close> is the \<^verbatim>\<open>except\<close> branch.
\<close>

definition processing_error :: "string \<Rightarrow> int \<Rightarrow> string \<Rightarrow> tool_call list \<Rightarrow> response" where
  "processing_error sid step_num msg ts =
     \<lparr>flashes = [(''Error processing video: '' @ msg, ''error'')],
      redirect = Step sid step_num, tools = ts\<rparr>"

definition upload ::
  "env \<Rightarrow> SessionManager \<Rightarrow> string \<Rightarrow> int \<Rightarrow> string option
     \<Rightarrow> (response \<times> SessionManager) outcome" where
  "upload ev m sid step_num video =
     bind (get_session m sid) (\<lambda>(session, m1).
       case session of
         None \<Rightarrow>
           Returns (\<lparr>flashes = [(''Session not found'', ''error'')], redirect = Index,
                     tools = []\<rparr>, m1)
       | Some s \<Rightarrow>
           (case video of
              None \<Rightarrow>
                Returns (\<lparr>flashes = [(''No video file provided'', ''error'')],
                          redirect = Step sid step_num, tools = []\<rparr>, m1)
            | Some filename \<Rightarrow>
                if filename = [] then
                  Returns (\<lparr>flashes = [(''No video file selected'', ''error'')],
                            redirect = Step sid step_num, tools = []\<rparr>, m1)
                else if \<not> allowed_file filename ALLOWED_VIDEO_EXTENSIONS then
                  Returns (\<lparr>flashes =
                              [(''Invalid file type. Please upload MP4, MOV, or AVI.'', ''error'')],
                            redirect = Step sid step_num, tools = []\<rparr>, m1)
                else
                  (let session_dir = path_join UPLOAD_FOLDER sid;
                       video_path = path_join session_dir (''step_'' @ str_int step_num @ ''.mp4'');
                       silent_video_path =
                         path_join session_dir (''step_'' @ str_int step_num @ ''_silent.mp4'');
                       frame_path =
                         path_join session_dir (''step_'' @ str_int step_num @ ''_frame.jpg'');
                       strip_call = StripAudio video_path silent_video_path;
                       frame_call = ExtractLastFrame silent_video_path frame_path
                   in
                     case io_error ev SaveUpload of
                       Some msg \<Rightarrow> Returns (processing_error sid step_num msg [], m1)
                     | None \<Rightarrow>
                         (case run_tool ev strip_call of
                            NotStarted msg \<Rightarrow>
                              Returns (processing_error sid step_num msg [], m1)
                          | Failed \<Rightarrow>
                              Returns (processing_error sid step_num ''ffmpeg command failed''
                                         [strip_call], m1)
                          | Ran \<Rightarrow>
                              (case run_tool ev frame_call of
                                 NotStarted msg \<Rightarrow>
                                   Returns (processing_error sid step_num msg [strip_call], m1)
                               | Failed \<Rightarrow>
                                   Returns (processing_error sid step_num
                                              ''ffmpeg command failed''
                                              [strip_call, frame_call], m1)
                               | Ran \<Rightarrow>
                                   bind (add_uploaded_video (disk_write ev) m1 sid
                                           silent_video_path frame_path)
                                     (\<lambda>(added, m2).
                                        Returns (\<lparr>flashes = [],
                                                  redirect =
                                                    (if step_num < int (length (prompts s))
                                                     then Step sid (step_num + 1)
                                                     else Combine sid),
                                                  tools = [strip_call, frame_call]\<rparr>,
                                                 m2)))))))"

text \<open>
  \<open>generate_final\<close>. The stored paths are made \<^verbatim>\<open>Path\<close> objects; the message for a missing
  file shows the path as \<^verbatim>\<open>str\<close> of that object spells it. \<open>combining_error\<close> is the
  \<^verbatim>\<open>except\<close> branch.
\<close>

definition combining_error :: "string \<Rightarrow> string \<Rightarrow> tool_call list \<Rightarrow> response" where
  "combining_error sid msg ts =
     \<lparr>flashes = [(''Error combining videos: '' @ msg, ''error'')],
      redirect = Combine sid, tools = ts\<rparr>"

definition generate_final ::
  "env \<Rightarrow> SessionManager \<Rightarrow> string \<Rightarrow> (response \<times> SessionManager) outcome" where
  "generate_final ev m sid =
     bind (get_session m sid) (\<lambda>(session, m1).
       case session of
         None \<Rightarrow>
           Returns (\<lparr>flashes = [(''Session not found'', ''error'')], redirect = Index,
                     tools = []\<rparr>, m1)
       | Some s \<Rightarrow>
           bind (is_complete m1 sid) (\<lambda>(complete, m2).
             if \<not> complete then
               Returns (\<lparr>flashes = [(''Not all videos have been uploaded'', ''error'')],
                         redirect = Plan sid, tools = []\<rparr>, m2)
             else
               (case find (\<lambda>video_path. \<not> path_exists ev video_path) (uploaded_videos s) of
                  Some video_path \<Rightarrow>
                    Returns (\<lparr>flashes =
                                [(''Video file not found: '' @ path_str ev video_path, ''error'')],
                              redirect = Combine sid, tools = []\<rparr>, m2)
                | None \<Rightarrow>
                    (let final_output =
                           path_join (path_join UPLOAD_FOLDER sid) ''final_output.mp4'';
                         concat_call = ConcatVideos (uploaded_videos s) final_output
                     in
                       case io_error ev WriteList of
                         Some msg \<Rightarrow> Returns (combining_error sid msg [], m2)
                       | None \<Rightarrow>
                           (case run_tool ev concat_call of
                              NotStarted msg \<Rightarrow> Returns (combining_error sid msg [], m2)
                            | Failed \<Rightarrow>
                                Returns (combining_error sid ''ffmpeg concat failed''
                                           [concat_call], m2)
                            | Ran \<Rightarrow>
                                Returns (\<lparr>flashes =
                                            [(''Video combination complete!'', ''success'')],
                                          redirect = Combine sid, tools = [concat_call]\<rparr>,
                                         m2))))))"

section \<open>Sequences of calls and the properties stated of them\<close>

text \<open>
  A client of the store makes calls one after the other; \<open>run\<close> threads the store
  through them. \<open>Create\<close> names the identifier the call draws, and every call that saves
  names the end of its write.
\<close>

datatype call =
  Create write_result string string string "string list" int string
  | Get string
  | Update write_result string "(string \<times> pyval) list"
  | AddVideo write_result string string string
  | IsComplete string

fun exec :: "SessionManager \<Rightarrow> call \<Rightarrow> SessionManager outcome" where
  "exec m (Create w uuid scene img ps n key) =
     Returns (snd (create_session w m uuid scene img ps n key))"
| "exec m (Get sid) = bind (get_session m sid) (\<lambda>(r, m1). Returns m1)"
| "exec m (Update w sid updates) =
     bind (update_session w m sid updates) (\<lambda>(r, m1). Returns m1)"
| "exec m (AddVideo w sid video_path frame_path) =
     bind (add_uploaded_video w m sid video_path frame_path) (\<lambda>(r, m1). Returns m1)"
| "exec m (IsComplete sid) = bind (is_complete m sid) (\<lambda>(r, m1). Returns m1)"

fun run :: "SessionManager \<Rightarrow> call list \<Rightarrow> SessionManager outcome" where
  "run m [] = Returns m"
| "run m (c # cs) = bind (exec m c) (\<lambda>m1. run m1 cs)"

text \<open>
  The fields that record a session's progress. A call leaves the progress of session
  \<open>sid\<close> to the uploads when it is not a second \<open>Create\<close> drawing the same identifier and
  not an \<open>Update\<close> of \<open>sid\<close> that names one of these fields.
\<close>

definition progress_fields :: "string list" where
  "progress_fields = [''current_step'', ''uploaded_videos'', ''last_frames'', ''num_clips'']"

fun keeps_progress :: "string \<Rightarrow> call \<Rightarrow> bool" where
  "keeps_progress sid (Create w uuid scene img ps n key) \<longleftrightarrow> uuid \<noteq> sid"
| "keeps_progress sid (Update w sid' updates) \<longleftrightarrow>
     sid' \<noteq> sid \<or> list_all (\<lambda>(key, v). key \<notin> set progress_fields) updates"
| "keeps_progress sid c \<longleftrightarrow> True"

fun is_upload_to :: "string \<Rightarrow> call \<Rightarrow> bool" where
  "is_upload_to sid (AddVideo w sid' video_path frame_path) \<longleftrightarrow> sid' = sid"
| "is_upload_to sid c \<longleftrightarrow> False"

definition session_invariant :: "SessionData \<Rightarrow> bool" where
  "session_invariant s \<longleftrightarrow>
     length (uploaded_videos s) = length (last_frames s) \<and>
     current_step s = min (int (length (uploaded_videos s)) + 1) (num_clips s)"

text \<open>
  An identifier is known when the cache holds a record for it or its file holds a
  dictionary that \<open>from_dict\<close> reads.
\<close>

definition known :: "SessionManager \<Rightarrow> string \<Rightarrow> bool" where
  "known m sid \<longleftrightarrow>
     in_memory_sessions m sid \<noteq> None \<or>
     (case session_files m sid of
        Some (Doc data) \<Rightarrow> (case from_dict data of Returns s \<Rightarrow> True | _ \<Rightarrow> False)
      | _ \<Rightarrow> False)"

text \<open>
  A keyword argument is typed when it is not named like a parameter of \<open>update_session\<close>,
  names no method or inherited attribute and, if it names a field, has a value of the
  field's annotated type.
\<close>

definition typed_update :: "string \<times> pyval \<Rightarrow> bool" where
  "typed_update kv \<longleftrightarrow>
     (let key = fst kv; v = snd kv in
      if key \<in> set parameter_names then False
      else if key \<in> set [''scene_description'', ''starting_image_path'', ''openai_api_key'']
      then the_str v \<noteq> None
      else if key \<in> set [''current_step'', ''num_clips''] then the_int v \<noteq> None
      else if key \<in> set [''prompts'', ''uploaded_videos'', ''last_frames''] then
        the_strlist v \<noteq> None
      else \<not> is_class_attribute key)"

text \<open>
  The steps of a session that have no uploaded video yet, and what it is for a response
  to report them: some flashed message names each one.
\<close>

definition missing_steps :: "SessionData \<Rightarrow> int list" where
  "missing_steps s = filter (\<lambda>k. int (length (uploaded_videos s)) < k) (map (\<lambda>i. i + 1) (py_range (num_clips s)))"

definition reports_missing :: "response \<Rightarrow> SessionData \<Rightarrow> bool" where
  "reports_missing r s \<longleftrightarrow>
     list_all (\<lambda>k. list_ex (\<lambda>(msg, category). sublist (str_int k) msg) (flashes r))
       (missing_steps s)"

section \<open>Example data\<close>

text \<open>
  The inputs at which the theorems below are instantiated: a store with no session, the
  record \<open>create_session\<close> makes for the identifier \<open>s1\<close>, a store holding one record
  and its file, and an environment in which the media tool succeeds, every file exists and
  every write succeeds.
\<close>

abbreviation no_sessions :: SessionManager where
  "no_sessions \<equiv> \<lparr>in_memory_sessions = Map.empty, session_files = Map.empty\<rparr>"

abbreviation created :: "string list \<Rightarrow> int \<Rightarrow> SessionData" where
  "created ps n \<equiv>
     \<lparr>session_id = ''s1'', scene_description = ''a cat'',
      starting_image_path = ''uploads/s1/starting_image.jpg'', prompts = ps, current_step = 1,
      uploaded_videos = [], last_frames = [], num_clips = n, openai_api_key = ''key''\<rparr>"

abbreviation holding :: "SessionData \<Rightarrow> SessionManager" where
  "holding s \<equiv>
     \<lparr>in_memory_sessions = [''s1'' \<mapsto> s], session_files = [''s1'' \<mapsto> Doc (to_dict s)]\<rparr>"

abbreviation tools_ok :: env where
  "tools_ok \<equiv>
     \<lparr>ffmpeg_ok = \<lambda>c. True, path_exists = \<lambda>p. True, disk_write = Written,
      path_str = \<lambda>p. p, io_error = \<lambda>step. None\<rparr>"

section \<open>Serialisation\<close>

lemma dom_asdict: "dom (asdict s) = set field_names"
  by (auto simp: asdict_def field_names_def split: if_splits)

lemma dom_to_dict: "dom (to_dict s) = set field_names - {''openai_api_key''}"
  by (simp add: to_dict_def pop_def dom_asdict)

lemma to_dict_restore:
  "(to_dict s)(''openai_api_key'' \<mapsto> PStr k) = asdict (s\<lparr>openai_api_key := k\<rparr>)"
  by (rule ext) (simp add: to_dict_def pop_def asdict_def)

lemma cls_asdict: "cls (asdict s) = Returns s"
  by (simp add: cls_def dom_asdict) (simp add: asdict_def)

text \<open>
  C5. The serialised form has no credential key, and it is the same for two records that
  differ only in the credential: whatever \<open>openai_api_key\<close> is set to, \<open>to_dict\<close> gives
  the same dictionary, and \<open>save_session\<close> leaves the same files, however the write
  ends.
\<close>

theorem to_dict_hides_credential:
  "''openai_api_key'' \<notin> dom (to_dict s) \<and>
   to_dict (s\<lparr>openai_api_key := k\<rparr>) = to_dict s \<and>
   save_session w m (s\<lparr>openai_api_key := k\<rparr>) = save_session w m s"
proof -
  have absent: "''openai_api_key'' \<notin> dom (to_dict s)"
    by (simp add: dom_to_dict)
  have same: "to_dict (s\<lparr>openai_api_key := k\<rparr>) = to_dict s"
    by (rule ext) (simp add: to_dict_def pop_def asdict_def)
  have "save_session w m (s\<lparr>openai_api_key := k\<rparr>) = save_session w m s"
    by (cases w) (simp_all add: save_session_def same)
  with absent same show ?thesis by blast
qed

text \<open>
  C9. Reading a record back from its serialised form gives the record with the credential
  replaced by the empty string, and every other field as it was.
\<close>

theorem from_dict_to_dict:
  "from_dict (to_dict s) = Returns (s\<lparr>openai_api_key := ''''\<rparr>)"
proof -
  have "''openai_api_key'' \<notin> dom (to_dict s)"
    by (simp add: dom_to_dict)
  then have "from_dict (to_dict s) = cls ((to_dict s)(''openai_api_key'' \<mapsto> PStr ''''))"
    by (simp add: from_dict_def)
  also have "\<dots> = cls (asdict (s\<lparr>openai_api_key := ''''\<rparr>))"
    by (simp only: to_dict_restore)
  also have "\<dots> = Returns (s\<lparr>openai_api_key := ''''\<rparr>)"
    by (rule cls_asdict)
  finally show ?thesis .
qed

section \<open>Reading the store\<close>

lemma get_session_cached:
  "in_memory_sessions m sid = Some s \<Longrightarrow> get_session m sid = Returns (Some s, m)"
  by (simp add: get_session_def)

lemma get_session_not_Raises: "get_session m sid \<noteq> Raises e"
  by (simp add: get_session_def split: option.splits session_file.splits outcome.splits)

lemma get_session_Some:
  assumes "get_session m sid = Returns (Some s, m1)"
  shows "in_memory_sessions m1 = (in_memory_sessions m)(sid \<mapsto> s)"
    and "session_files m1 = session_files m"
  using assms
  by (auto simp: get_session_def split: option.splits session_file.splits outcome.splits)

lemma get_session_None:
  assumes "get_session m sid = Returns (None, m1)"
  shows "m1 = m" and "in_memory_sessions m sid = None"
  using assms
  by (auto simp: get_session_def split: option.splits session_file.splits outcome.splits)

lemma get_session_keeps:
  assumes "get_session m sid = Returns (r, m1)" and "in_memory_sessions m sid' = Some s"
  shows "in_memory_sessions m1 sid' = Some s"
  using assms
  by (auto simp: get_session_def split: option.splits session_file.splits outcome.splits)

lemma bindE:
  assumes "bind x f = Returns y"
  obtains a where "x = Returns a" and "f a = Returns y"
  using assms by (cases x) auto

lemma save_session_cache:
  "in_memory_sessions (save_session w m s) = in_memory_sessions m"
  by (cases w) (simp_all add: save_session_def)

lemma save_session_files:
  "session_files (save_session w m s) =
     (case w of
        Written \<Rightarrow> (session_files m)(session_id s \<mapsto> Doc (to_dict s))
      | OpenFailed \<Rightarrow> session_files m
      | Truncated \<Rightarrow> (session_files m)(session_id s \<mapsto> NotAnObject))"
  by (cases w) (simp_all add: save_session_def)

lemma create_session_example:
  "create_session Written no_sessions ''s1'' ''a cat'' ''uploads/s1/starting_image.jpg'' ps n
     ''key'' = (''s1'', holding (created ps n))"
  by (simp add: create_session_def save_session_def Let_def)

section \<open>Progress of a session\<close>

lemma setattr_keeps_progress:
  assumes "setattr s key v = Some s'" and "key \<notin> set progress_fields"
  shows "current_step s' = current_step s \<and> uploaded_videos s' = uploaded_videos s \<and>
         last_frames s' = last_frames s \<and> num_clips s' = num_clips s"
  using assms
  by (auto simp: setattr_def progress_fields_def split: if_splits)

lemma update_fields_keeps_progress:
  assumes "update_fields s updates = Returns s'"
    and "list_all (\<lambda>(key, v). key \<notin> set progress_fields) updates"
  shows "current_step s' = current_step s \<and> uploaded_videos s' = uploaded_videos s \<and>
         last_frames s' = last_frames s \<and> num_clips s' = num_clips s"
  using assms
proof (induction s updates rule: update_fields.induct)
  case (1 s)
  then show ?case by simp
next
  case (2 s key v updates)
  show ?case
  proof (cases "hasattr key")
    case False
    with 2 show ?thesis by simp
  next
    case True
    with "2.prems" obtain s1 where s1: "is_field key" "setattr s key v = Some s1"
      and rest: "update_fields s1 updates = Returns s'"
      by (auto split: if_splits option.splits)
    from "2.prems"(2) have k: "key \<notin> set progress_fields"
      and r: "list_all (\<lambda>(key, v). key \<notin> set progress_fields) updates"
      by simp_all
    from "2.IH"(1) [OF True s1 rest r] setattr_keeps_progress [OF s1(2) k]
    show ?thesis by simp
  qed
qed

lemma add_uploaded_video_cached:
  assumes "in_memory_sessions m sid = Some s"
  shows "\<exists>s'. add_uploaded_video w m sid v f =
             Returns (True,
               save_session w (m\<lparr>in_memory_sessions := (in_memory_sessions m)(sid \<mapsto> s')\<rparr>) s') \<and>
           uploaded_videos s' = uploaded_videos s @ [v] \<and>
           last_frames s' = last_frames s @ [f] \<and>
           num_clips s' = num_clips s \<and>
           current_step s' = (if current_step s < num_clips s then current_step s + 1 else current_step s) \<and>
           session_id s' = session_id s"
proof (cases "current_step s < num_clips s")
  case True
  with assms show ?thesis
    by (intro exI [of _ "s\<lparr>uploaded_videos := uploaded_videos s @ [v],
          last_frames := last_frames s @ [f], current_step := current_step s + 1\<rparr>"] exI)
      (simp add: add_uploaded_video_def get_session_cached Let_def)
next
  case False
  with assms show ?thesis
    by (intro exI [of _ "s\<lparr>uploaded_videos := uploaded_videos s @ [v],
          last_frames := last_frames s @ [f]\<rparr>"] exI)
      (simp add: add_uploaded_video_def get_session_cached Let_def)
qed

lemma exec_preserves:
  assumes c: "in_memory_sessions m sid = Some s"
    and inv: "session_invariant s"
    and keeps: "keeps_progress sid c"
    and ex: "exec m c = Returns m'"
  shows "\<exists>s'. in_memory_sessions m' sid = Some s' \<and> session_invariant s' \<and>
           num_clips s' = num_clips s \<and>
           length (uploaded_videos s') =
             length (uploaded_videos s) + (if is_upload_to sid c then 1 else 0)"
proof (cases c)
  case (Create w uuid scene img ps n key)
  with keeps ex c inv show ?thesis
    by (auto simp: create_session_def save_session_cache Let_def)
next
  case (Get sid')
  with ex obtain r m1 where "get_session m sid' = Returns (r, m1)" and "m' = m1"
    by (auto elim!: bindE)
  with get_session_keeps [OF this(1) c] inv Get show ?thesis by simp
next
  case (IsComplete sid')
  with ex obtain r m1 where "get_session m sid' = Returns (r, m1)" and "m' = m1"
    by (auto simp: is_complete_def elim!: bindE split: option.splits)
  with get_session_keeps [OF this(1) c] inv IsComplete show ?thesis by simp
next
  case (AddVideo w sid' v f)
  show ?thesis
  proof (cases "sid' = sid")
    case True
    from add_uploaded_video_cached [OF c, of w v f] obtain s' where
      a: "add_uploaded_video w m sid v f =
            Returns (True,
              save_session w (m\<lparr>in_memory_sessions := (in_memory_sessions m)(sid \<mapsto> s')\<rparr>) s')"
      and s': "uploaded_videos s' = uploaded_videos s @ [v]"
        "last_frames s' = last_frames s @ [f]" "num_clips s' = num_clips s"
        "current_step s' = (if current_step s < num_clips s then current_step s + 1 else current_step s)"
      by blast
    from a ex AddVideo True have "in_memory_sessions m' sid = Some s'"
      by (auto simp: save_session_cache)
    moreover from inv s' have "session_invariant s'"
      by (auto simp: session_invariant_def)
    ultimately show ?thesis using s' AddVideo True by simp
  next
    case False
    from ex AddVideo obtain r m1 where g: "get_session m sid' = Returns (r, m1)"
      by (auto simp: add_uploaded_video_def elim!: bindE)
    from get_session_keeps [OF g c] have c1: "in_memory_sessions m1 sid = Some s" .
    from ex AddVideo g False c1 have "in_memory_sessions m' sid = Some s"
      by (auto simp: add_uploaded_video_def save_session_cache Let_def split: option.splits)
    with inv AddVideo False show ?thesis by simp
  qed
next
  case (Update w sid' updates)
  from ex Update obtain r m1 where g: "get_session m sid' = Returns (r, m1)"
    by (auto simp: update_session_def elim!: bindE split: if_splits)
  from get_session_keeps [OF g c] have c1: "in_memory_sessions m1 sid = Some s" .
  show ?thesis
  proof (cases "sid' = sid")
    case False
    from ex Update g False c1 have "in_memory_sessions m' sid = Some s"
      by (auto simp: update_session_def save_session_cache elim!: bindE
          split: option.splits if_splits)
    with inv Update show ?thesis by simp
  next
    case True
    with g c have r: "r = Some s" "m1 = m" by (simp_all add: get_session_cached)
    from keeps Update True have k: "list_all (\<lambda>(key, v). key \<notin> set progress_fields) updates"
      by simp
    from ex Update True c obtain s' where u: "update_fields s updates = Returns s'"
      and m': "in_memory_sessions m' sid = Some s'"
      by (auto simp: update_session_def get_session_cached save_session_cache elim!: bindE
          split: if_splits)
    from update_fields_keeps_progress [OF u k] inv have "session_invariant s'"
      by (simp add: session_invariant_def)
    with m' update_fields_keeps_progress [OF u k] Update show ?thesis by simp
  qed
qed

lemma run_preserves:
  assumes "in_memory_sessions m sid = Some s"
    and "session_invariant s"
    and "list_all (keeps_progress sid) calls"
    and "run m calls = Returns m'"
  shows "\<exists>s'. in_memory_sessions m' sid = Some s' \<and> session_invariant s' \<and>
           num_clips s' = num_clips s \<and>
           length (uploaded_videos s') =
             length (uploaded_videos s) + length (filter (is_upload_to sid) calls)"
  using assms
proof (induction calls arbitrary: m s)
  case Nil
  then show ?case by simp
next
  case (Cons c calls)
  from Cons.prems(4) obtain m1 where e: "exec m c = Returns m1" and r: "run m1 calls = Returns m'"
    by (auto elim!: bindE)
  from Cons.prems(3) have k: "keeps_progress sid c" and ks: "list_all (keeps_progress sid) calls"
    by simp_all
  from exec_preserves [OF Cons.prems(1,2) k e] obtain s1 where
    s1: "in_memory_sessions m1 sid = Some s1" "session_invariant s1"
      "num_clips s1 = num_clips s"
      "length (uploaded_videos s1) = length (uploaded_videos s) + (if is_upload_to sid c then 1 else 0)"
    by blast
  from Cons.IH [OF s1(1,2) ks r] s1(3,4) show ?case by auto
qed

text \<open>
  C1, as amended. A session is created with a clip count of at least 1, and from then on
  its four progress fields are left to \<open>add_uploaded_video\<close>: no \<open>update_session\<close> on it
  names one of them, no later \<open>create_session\<close> draws its identifier again, and no list
  object is stored in two places (a run that would store one does not return in this
  model). Whatever calls follow (uploads to it, reads, updates of its other fields, calls
  on other sessions) and however their writes end, the session then has as many frames as
  videos, one video per upload made to it, and its current step is the smaller of the
  number of videos plus one and the clip count; so the current step never exceeds the clip
  count.
\<close>

theorem upload_invariant:
  assumes "1 \<le> n"
    and "create_session w m0 uuid scene img ps n key = (sid, m1)"
    and "list_all (keeps_progress sid) calls"
    and "run m1 calls = Returns m2"
  shows "\<exists>s. get_session m2 sid = Returns (Some s, m2) \<and> num_clips s = n \<and>
           length (uploaded_videos s) = length (filter (is_upload_to sid) calls) \<and>
           length (uploaded_videos s) = length (last_frames s) \<and>
           current_step s = min (int (length (uploaded_videos s)) + 1) n \<and>
           current_step s \<le> n"
proof -
  let ?s0 = "\<lparr>session_id = uuid, scene_description = scene, starting_image_path = img,
              prompts = ps, current_step = 1, uploaded_videos = [], last_frames = [],
              num_clips = n, openai_api_key = key\<rparr>"
  from assms(2) have sid: "sid = uuid" and c: "in_memory_sessions m1 sid = Some ?s0"
    by (auto simp: create_session_def save_session_cache Let_def)
  from assms(1) have inv: "session_invariant ?s0"
    by (simp add: session_invariant_def)
  from run_preserves [OF c inv assms(3,4)] obtain s where
    s: "in_memory_sessions m2 sid = Some s" "session_invariant s" "num_clips s = n"
      "length (uploaded_videos s) = length (filter (is_upload_to sid) calls)"
    by auto
  from s(2,3) have "current_step s \<le> n"
    by (simp add: session_invariant_def)
  with s get_session_cached [OF s(1)] show ?thesis
    by (auto simp: session_invariant_def)
qed

text \<open>
  The application's own sequence: create, set the starting image, then three uploads to a
  session of two clips, the second with a write that cannot open the file and the third
  with a write that breaks off.
\<close>

theorem upload_invariant_witness:
  "\<exists>m2 s.
     run (snd (create_session Written no_sessions ''s1'' ''a cat''
                 ''/tmp/temp_starting_image.jpg'' [''p1'', ''p2''] 2 ''key''))
       [Update Written ''s1''
          [(''starting_image_path'', PStr ''uploads/s1/starting_image.jpg'')],
        AddVideo Written ''s1'' ''v1'' ''f1'', IsComplete ''s1'',
        AddVideo OpenFailed ''s1'' ''v2'' ''f2'',
        AddVideo Truncated ''s1'' ''v3'' ''f3''] = Returns m2 \<and>
     get_session m2 ''s1'' = Returns (Some s, m2) \<and>
     length (uploaded_videos s) = 3 \<and> length (last_frames s) = 3 \<and> current_step s = 2"
proof -
  let ?m1 = "snd (create_session Written no_sessions ''s1'' ''a cat''
                    ''/tmp/temp_starting_image.jpg'' [''p1'', ''p2''] 2 ''key'')"
  let ?calls = "[Update Written ''s1''
                   [(''starting_image_path'', PStr ''uploads/s1/starting_image.jpg'')],
              AddVideo Written ''s1'' ''v1'' ''f1'', IsComplete ''s1'',
              AddVideo OpenFailed ''s1'' ''v2'' ''f2'',
              AddVideo Truncated ''s1'' ''v3'' ''f3'']"
  have c: "create_session Written no_sessions ''s1'' ''a cat''
             ''/tmp/temp_starting_image.jpg'' [''p1'', ''p2''] 2 ''key'' = (''s1'', ?m1)"
    by (simp add: create_session_def Let_def)
  have k: "list_all (keeps_progress ''s1'') ?calls"
    by (simp add: progress_fields_def)
  have "\<exists>m2. run ?m1 ?calls = Returns m2"
    by (simp add: create_session_def save_session_def update_session_def parameter_names_def
        add_uploaded_video_def is_complete_def get_session_def hasattr_def is_field_def
        field_names_def setattr_def Let_def)
  then obtain m2 where r: "run ?m1 ?calls = Returns m2" by blast
  have n: "(1::int) \<le> 2" by simp
  from upload_invariant [OF n c k r] r show ?thesis
    by auto
qed

text \<open>
  C1 as stated fails when \<open>update_session\<close> is used on a progress field, which it accepts
  like any other field. A session of two clips is created; \<open>update_session\<close> sets its
  current step to 7 and returns True; the upload that follows returns True and appends
  to both lists, and since 7 is not below the clip count the current step stays 7: it
  exceeds the clip count 2 and is not the smaller of 1 + 1 and 2.
\<close>

theorem upload_after_step_update:
  "create_session Written no_sessions ''s1'' ''a cat'' ''uploads/s1/starting_image.jpg''
     [''p1'', ''p2''] 2 ''key'' = (''s1'', holding (created [''p1'', ''p2''] 2)) \<and>
   update_session Written (holding (created [''p1'', ''p2''] 2)) ''s1''
     [(''current_step'', PInt 7)] =
     Returns (True, holding ((created [''p1'', ''p2''] 2)\<lparr>current_step := 7\<rparr>)) \<and>
   add_uploaded_video Written (holding ((created [''p1'', ''p2''] 2)\<lparr>current_step := 7\<rparr>))
     ''s1'' ''v1'' ''f1'' =
     Returns (True,
       holding ((created [''p1'', ''p2''] 2)
         \<lparr>current_step := 7, uploaded_videos := [''v1''], last_frames := [''f1'']\<rparr>)) \<and>
   \<not> session_invariant
       ((created [''p1'', ''p2''] 2)
          \<lparr>current_step := 7, uploaded_videos := [''v1''], last_frames := [''f1'']\<rparr>) \<and>
   num_clips (created [''p1'', ''p2''] 2) < 7"
proof -
  have u: "update_session Written (holding (created [''p1'', ''p2''] 2)) ''s1''
             [(''current_step'', PInt 7)] =
           Returns (True, holding ((created [''p1'', ''p2''] 2)\<lparr>current_step := 7\<rparr>))"
    by (simp add: update_session_def parameter_names_def get_session_cached hasattr_def
        is_field_def field_names_def setattr_def save_session_def)
  have a: "add_uploaded_video Written
             (holding ((created [''p1'', ''p2''] 2)\<lparr>current_step := 7\<rparr>)) ''s1'' ''v1'' ''f1'' =
           Returns (True,
             holding ((created [''p1'', ''p2''] 2)
               \<lparr>current_step := 7, uploaded_videos := [''v1''], last_frames := [''f1'']\<rparr>))"
    by (simp add: add_uploaded_video_def get_session_cached save_session_def Let_def)
  have i: "\<not> session_invariant
             ((created [''p1'', ''p2''] 2)
                \<lparr>current_step := 7, uploaded_videos := [''v1''], last_frames := [''f1'']\<rparr>)"
    by (simp add: session_invariant_def)
  from create_session_example u a i show ?thesis by simp
qed

text \<open>
  C8, as amended. A session that satisfies the invariant of C1 and already has at least as
  many videos as its clip count: a further \<open>add_uploaded_video\<close> returns True and appends
  to both lists, which are then longer than the clip count; the current step was the clip
  count and stays so; \<open>is_complete\<close> is true before and after. This is so however the
  write of the session file ends.
\<close>

theorem upload_beyond_clip_count:
  assumes "get_session m sid = Returns (Some s, m1)"
    and "session_invariant s"
    and "num_clips s \<le> int (length (uploaded_videos s))"
  shows "\<exists>s' m2.
           add_uploaded_video w m sid v f = Returns (True, m2) \<and>
           get_session m2 sid = Returns (Some s', m2) \<and>
           uploaded_videos s' = uploaded_videos s @ [v] \<and>
           last_frames s' = last_frames s @ [f] \<and>
           num_clips s' = num_clips s \<and>
           num_clips s' < int (length (uploaded_videos s')) \<and>
           num_clips s' < int (length (last_frames s')) \<and>
           current_step s = num_clips s \<and>
           current_step s' = num_clips s' \<and>
           is_complete m sid = Returns (True, m1) \<and>
           is_complete m2 sid = Returns (True, m2)"
proof -
  let ?s' = "s\<lparr>uploaded_videos := uploaded_videos s @ [v], last_frames := last_frames s @ [f]\<rparr>"
  let ?m2 = "save_session w (m1\<lparr>in_memory_sessions := (in_memory_sessions m1)(sid \<mapsto> ?s')\<rparr>) ?s'"
  from assms(2,3) have step: "current_step s = num_clips s"
    and len: "length (last_frames s) = length (uploaded_videos s)"
    by (simp_all add: session_invariant_def)
  from assms(1) step have a: "add_uploaded_video w m sid v f = Returns (True, ?m2)"
    by (simp add: add_uploaded_video_def Let_def)
  have c: "in_memory_sessions ?m2 sid = Some ?s'"
    by (simp add: save_session_cache)
  then have g: "get_session ?m2 sid = Returns (Some ?s', ?m2)"
    by (rule get_session_cached)
  from assms(1,3) have c1: "is_complete m sid = Returns (True, m1)"
    by (simp add: is_complete_def)
  from g assms(3) have c2: "is_complete ?m2 sid = Returns (True, ?m2)"
    by (simp add: is_complete_def)
  from a g c1 c2 step len assms(3) show ?thesis
    by (intro exI [of _ ?s'] exI [of _ ?m2]) simp
qed

text \<open>A session of one clip that has its one video, and a second upload to it.\<close>

theorem upload_beyond_clip_count_witness:
  "\<exists>s' m2.
     add_uploaded_video Written
       (holding ((created [''p1''] 1)\<lparr>uploaded_videos := [''v1''], last_frames := [''f1'']\<rparr>))
       ''s1'' ''v2'' ''f2'' = Returns (True, m2) \<and>
     get_session m2 ''s1'' = Returns (Some s', m2) \<and>
     uploaded_videos s' = [''v1'', ''v2''] \<and> last_frames s' = [''f1'', ''f2''] \<and>
     current_step s' = 1 \<and> num_clips s' = 1 \<and> is_complete m2 ''s1'' = Returns (True, m2)"
proof -
  let ?s = "(created [''p1''] 1)\<lparr>uploaded_videos := [''v1''], last_frames := [''f1'']\<rparr>"
  let ?m = "holding ?s"
  have g: "get_session ?m ''s1'' = Returns (Some ?s, ?m)"
    by (simp add: get_session_def)
  have i: "session_invariant ?s" by (simp add: session_invariant_def)
  have c: "num_clips ?s \<le> int (length (uploaded_videos ?s))" by simp
  from upload_beyond_clip_count [OF g i c, of Written "''v2''" "''f2''"] obtain s' m2 where
    "add_uploaded_video Written ?m ''s1'' ''v2'' ''f2'' = Returns (True, m2)"
    "get_session m2 ''s1'' = Returns (Some s', m2)"
    "uploaded_videos s' = uploaded_videos ?s @ [''v2'']"
    "last_frames s' = last_frames ?s @ [''f2'']"
    "num_clips s' = num_clips ?s" "current_step s' = num_clips s'"
    "is_complete m2 ''s1'' = Returns (True, m2)"
    by blast
  then show ?thesis by simp
qed

text \<open>
  C8 as stated fails for a session created with clip count 0, which \<open>create_session\<close>
  accepts: it has no video, so its video count equals its clip count and \<open>is_complete\<close> is
  true; an upload succeeds and appends, and the current step is 1 before and after, not
  the clip count.
\<close>

theorem upload_without_clips:
  "create_session Written no_sessions ''s1'' ''a cat'' ''uploads/s1/starting_image.jpg'' [] 0
     ''key'' = (''s1'', holding (created [] 0)) \<and>
   is_complete (holding (created [] 0)) ''s1'' = Returns (True, holding (created [] 0)) \<and>
   add_uploaded_video Written (holding (created [] 0)) ''s1'' ''v1'' ''f1'' =
     Returns (True,
       holding ((created [] 0)\<lparr>uploaded_videos := [''v1''], last_frames := [''f1'']\<rparr>)) \<and>
   current_step ((created [] 0)\<lparr>uploaded_videos := [''v1''], last_frames := [''f1'']\<rparr>) = 1 \<and>
   num_clips ((created [] 0)\<lparr>uploaded_videos := [''v1''], last_frames := [''f1'']\<rparr>) = 0"
  by (simp add: create_session_example is_complete_def add_uploaded_video_def
      get_session_cached save_session_def Let_def)

section \<open>Updating a session\<close>

lemma asdict_update:
  "asdict (s\<lparr>session_id := a\<rparr>) = (asdict s)(''session_id'' \<mapsto> PStr a)"
  "asdict (s\<lparr>scene_description := a\<rparr>) = (asdict s)(''scene_description'' \<mapsto> PStr a)"
  "asdict (s\<lparr>starting_image_path := a\<rparr>) = (asdict s)(''starting_image_path'' \<mapsto> PStr a)"
  "asdict (s\<lparr>prompts := l\<rparr>) = (asdict s)(''prompts'' \<mapsto> PStrList l)"
  "asdict (s\<lparr>current_step := i\<rparr>) = (asdict s)(''current_step'' \<mapsto> PInt i)"
  "asdict (s\<lparr>uploaded_videos := l\<rparr>) = (asdict s)(''uploaded_videos'' \<mapsto> PStrList l)"
  "asdict (s\<lparr>last_frames := l\<rparr>) = (asdict s)(''last_frames'' \<mapsto> PStrList l)"
  "asdict (s\<lparr>num_clips := i\<rparr>) = (asdict s)(''num_clips'' \<mapsto> PInt i)"
  "asdict (s\<lparr>openai_api_key := a\<rparr>) = (asdict s)(''openai_api_key'' \<mapsto> PStr a)"
  by (rule ext, simp add: asdict_def)+

lemma setattr_field:
  "setattr s ''session_id'' (PStr a) = Some (s\<lparr>session_id := a\<rparr>)"
  "setattr s ''scene_description'' (PStr a) = Some (s\<lparr>scene_description := a\<rparr>)"
  "setattr s ''starting_image_path'' (PStr a) = Some (s\<lparr>starting_image_path := a\<rparr>)"
  "setattr s ''prompts'' (PStrList l) = Some (s\<lparr>prompts := l\<rparr>)"
  "setattr s ''current_step'' (PInt i) = Some (s\<lparr>current_step := i\<rparr>)"
  "setattr s ''uploaded_videos'' (PStrList l) = Some (s\<lparr>uploaded_videos := l\<rparr>)"
  "setattr s ''last_frames'' (PStrList l) = Some (s\<lparr>last_frames := l\<rparr>)"
  "setattr s ''num_clips'' (PInt i) = Some (s\<lparr>num_clips := i\<rparr>)"
  "setattr s ''openai_api_key'' (PStr a) = Some (s\<lparr>openai_api_key := a\<rparr>)"
  by (simp_all add: setattr_def)


lemma is_field_cases:
  assumes "is_field key"
  shows "key = ''session_id'' \<or> key = ''scene_description'' \<or> key = ''starting_image_path'' \<or>
         key = ''prompts'' \<or> key = ''current_step'' \<or> key = ''uploaded_videos'' \<or>
         key = ''last_frames'' \<or> key = ''num_clips'' \<or> key = ''openai_api_key''"
  using assms unfolding is_field_def field_names_def by simp

lemma typed_str:
  assumes "typed_update (key, v)"
    and "key \<in> set [''scene_description'', ''starting_image_path'', ''openai_api_key'']"
  shows "\<exists>x. v = PStr x"
proof -
  from assms have "the_str v \<noteq> None"
    unfolding typed_update_def Let_def parameter_names_def by auto
  then show ?thesis by (cases v) simp_all
qed

lemma typed_int:
  assumes "typed_update (key, v)" and "key \<in> set [''current_step'', ''num_clips'']"
  shows "\<exists>x. v = PInt x"
proof -
  from assms have "the_int v \<noteq> None"
    unfolding typed_update_def Let_def parameter_names_def by auto
  then show ?thesis by (cases v) simp_all
qed

lemma typed_strlist:
  assumes "typed_update (key, v)"
    and "key \<in> set [''prompts'', ''uploaded_videos'', ''last_frames'']"
  shows "\<exists>x. v = PStrList x"
proof -
  from assms have "the_strlist v \<noteq> None"
    unfolding typed_update_def Let_def parameter_names_def by auto
  then show ?thesis by (cases v) simp_all
qed

lemma typed_update_field:
  assumes t: "typed_update (key, v)" and f: "is_field key"
  shows "\<exists>s'. setattr s key v = Some s' \<and> asdict s' = (asdict s)(key \<mapsto> v) \<and>
           session_id s' = session_id s"
  using is_field_cases [OF f]
proof (elim disjE)
  assume k: "key = ''session_id''"
  with t have False by (simp add: typed_update_def parameter_names_def)
  then show ?thesis ..
next
  assume k: "key = ''scene_description''"
  then have "\<exists>x. v = PStr x" by (intro typed_str [OF t]) simp
  then obtain x where "v = PStr x" ..
  with k show ?thesis by (simp add: setattr_field asdict_update)
next
  assume k: "key = ''starting_image_path''"
  then have "\<exists>x. v = PStr x" by (intro typed_str [OF t]) simp
  then obtain x where "v = PStr x" ..
  with k show ?thesis by (simp add: setattr_field asdict_update)
next
  assume k: "key = ''prompts''"
  then have "\<exists>x. v = PStrList x" by (intro typed_strlist [OF t]) simp
  then obtain x where "v = PStrList x" ..
  with k show ?thesis by (simp add: setattr_field asdict_update)
next
  assume k: "key = ''current_step''"
  then have "\<exists>x. v = PInt x" by (intro typed_int [OF t]) simp
  then obtain x where "v = PInt x" ..
  with k show ?thesis by (simp add: setattr_field asdict_update)
next
  assume k: "key = ''uploaded_videos''"
  then have "\<exists>x. v = PStrList x" by (intro typed_strlist [OF t]) simp
  then obtain x where "v = PStrList x" ..
  with k show ?thesis by (simp add: setattr_field asdict_update)
next
  assume k: "key = ''last_frames''"
  then have "\<exists>x. v = PStrList x" by (intro typed_strlist [OF t]) simp
  then obtain x where "v = PStrList x" ..
  with k show ?thesis by (simp add: setattr_field asdict_update)
next
  assume k: "key = ''num_clips''"
  then have "\<exists>x. v = PInt x" by (intro typed_int [OF t]) simp
  then obtain x where "v = PInt x" ..
  with k show ?thesis by (simp add: setattr_field asdict_update)
next
  assume k: "key = ''openai_api_key''"
  then have "\<exists>x. v = PStr x" by (intro typed_str [OF t]) simp
  then obtain x where "v = PStr x" ..
  with k show ?thesis by (simp add: setattr_field asdict_update)
qed

lemma typed_update_other:
  assumes "typed_update (key, v)" and "\<not> is_field key"
  shows "\<not> hasattr key"
proof -
  from assms(2) have "key \<notin> set field_names" by (simp add: is_field_def)
  then have "\<not> is_class_attribute key"
    using assms(1) unfolding field_names_def typed_update_def Let_def
    by (auto split: if_splits)
  with assms(2) show ?thesis by (simp add: hasattr_def)
qed

lemma typed_update_no_clash:
  "list_all typed_update updates \<Longrightarrow>
     \<not> list_ex (\<lambda>(key, v). key \<in> set parameter_names) updates"
  by (induction updates) (auto simp: typed_update_def Let_def)

lemma update_fields_typed:
  assumes "list_all typed_update updates" and "distinct (map fst updates)"
  shows "\<exists>s'. update_fields s updates = Returns s' \<and>
           asdict s' = asdict s ++ (map_of updates |` set field_names) \<and>
           session_id s' = session_id s"
  using assms
proof (induction updates arbitrary: s)
  case Nil
  then show ?case by simp
next
  case (Cons kv updates)
  obtain key v where kv: "kv = (key, v)" by (cases kv)
  from Cons.prems kv have t: "typed_update (key, v)" and ts: "list_all typed_update updates"
    and d: "distinct (map fst updates)" and fresh: "map_of updates key = None"
    by (auto simp: map_of_eq_None_iff)
  show ?case
  proof (cases "is_field key")
    case True
    from typed_update_field [OF t True, of s] obtain s1 where
      s1: "setattr s key v = Some s1" "asdict s1 = (asdict s)(key \<mapsto> v)"
        "session_id s1 = session_id s" by blast
    from Cons.IH [OF ts d, of s1] obtain s' where
      s': "update_fields s1 updates = Returns s'"
        "asdict s' = asdict s1 ++ (map_of updates |` set field_names)"
        "session_id s' = session_id s1" by blast
    have "asdict s' = asdict s ++ (map_of (kv # updates) |` set field_names)"
    proof (rule ext)
      fix k
      from True fresh show "asdict s' k = (asdict s ++ (map_of (kv # updates) |` set field_names)) k"
        by (simp add: s'(2) s1(2) kv map_add_def restrict_map_def is_field_def split: option.splits)
    qed
    moreover from True s1(1) s'(1) have "update_fields s (kv # updates) = Returns s'"
      by (simp add: kv hasattr_def)
    moreover from s1(3) s'(3) have "session_id s' = session_id s" by simp
    ultimately show ?thesis by blast
  next
    case False
    from typed_update_other [OF t False] have h: "\<not> hasattr key" .
    from Cons.IH [OF ts d, of s] obtain s' where
      s': "update_fields s updates = Returns s'"
        "asdict s' = asdict s ++ (map_of updates |` set field_names)"
        "session_id s' = session_id s" by blast
    have "asdict s' = asdict s ++ (map_of (kv # updates) |` set field_names)"
    proof (rule ext)
      fix k
      from False show "asdict s' k = (asdict s ++ (map_of (kv # updates) |` set field_names)) k"
        by (simp add: s'(2) kv map_add_def restrict_map_def is_field_def split: option.splits)
    qed
    moreover from h s'(1) have "update_fields s (kv # updates) = Returns s'"
      by (simp add: kv)
    ultimately show ?thesis using s'(3) by blast
  qed
qed

lemma known_iff:
  assumes "get_session m sid = Returns (r, m1)"
  shows "known m sid \<longleftrightarrow> r \<noteq> None"
proof (cases "in_memory_sessions m sid")
  case (Some s)
  then have "known m sid" by (simp add: known_def)
  moreover from Some assms have "r = Some s" by (simp add: get_session_def)
  ultimately show ?thesis by simp
next
  case None
  with assms show ?thesis
    by (auto simp: known_def get_session_def split: option.splits session_file.splits outcome.splits)
qed


text \<open>
  C7, as amended. \<open>update_session\<close> with keyword arguments that name a data field other
  than \<open>session_id\<close>, with a value of the field's annotated type, or that name no
  attribute of the record at all; their names are distinct, as those of keyword arguments
  are, and the session's file, where it has to be read, holds values of the annotated
  types. For an unknown identifier it returns False and leaves
  the store as it is. For a known one it returns True; the record \<open>s'\<close> it leaves has,
  field by field, the value the arguments give for a field they name and the old value for
  every other field, and the cache holds \<open>s'\<close> under the identifier. The call then tries
  to write the file of the record and returns True however that ends: after a write that
  succeeds the file holds the serialised \<open>s'\<close>; when the file cannot be opened it holds
  what it held before; when the write breaks off it holds no record.
\<close>

theorem update_session_effect:
  assumes "list_all typed_update updates"
    and "distinct (map fst updates)"
    and "get_session m sid \<noteq> Unmodelled"
  shows "(\<not> known m sid \<longrightarrow> update_session w m sid updates = Returns (False, m)) \<and>
         (known m sid \<longrightarrow>
            (\<exists>s m1 s' m2.
               get_session m sid = Returns (Some s, m1) \<and>
               update_session w m sid updates = Returns (True, m2) \<and>
               asdict s' = asdict s ++ (map_of updates |` set field_names) \<and>
               in_memory_sessions m2 = (in_memory_sessions m)(sid \<mapsto> s') \<and>
               session_files m2 =
                 (case w of
                    Written \<Rightarrow> (session_files m)(session_id s \<mapsto> Doc (to_dict s'))
                  | OpenFailed \<Rightarrow> session_files m
                  | Truncated \<Rightarrow> (session_files m)(session_id s \<mapsto> NotAnObject))))"
proof -
  from assms(3) get_session_not_Raises [of m sid] obtain r m1 where
    g: "get_session m sid = Returns (r, m1)"
    by (cases "get_session m sid") auto
  from assms(1) have nc: "\<not> list_ex (\<lambda>(key, v). key \<in> set parameter_names) updates"
    by (rule typed_update_no_clash)
  show ?thesis
  proof (cases r)
    case None
    with g have "\<not> known m sid" by (simp add: known_iff)
    moreover from g None nc have "update_session w m sid updates = Returns (False, m)"
      by (simp add: update_session_def get_session_None)
    ultimately show ?thesis by simp
  next
    case (Some s)
    with g have k: "known m sid" by (simp add: known_iff)
    from update_fields_typed [OF assms(1,2), of s] obtain s' where
      s': "update_fields s updates = Returns s'"
        "asdict s' = asdict s ++ (map_of updates |` set field_names)"
        "session_id s' = session_id s" by blast
    let ?m2 = "save_session w (m1\<lparr>in_memory_sessions := (in_memory_sessions m1)(sid \<mapsto> s')\<rparr>) s'"
    from g Some s'(1) nc have u: "update_session w m sid updates = Returns (True, ?m2)"
      by (simp add: update_session_def)
    from g Some have m1: "in_memory_sessions m1 = (in_memory_sessions m)(sid \<mapsto> s)"
      "session_files m1 = session_files m"
      by (simp_all add: get_session_Some)
    have "in_memory_sessions ?m2 = (in_memory_sessions m)(sid \<mapsto> s')"
      by (simp add: save_session_cache m1)
    moreover have "session_files ?m2 =
        (case w of
           Written \<Rightarrow> (session_files m)(session_id s \<mapsto> Doc (to_dict s'))
         | OpenFailed \<Rightarrow> session_files m
         | Truncated \<Rightarrow> (session_files m)(session_id s \<mapsto> NotAnObject))"
      by (cases w) (simp_all add: save_session_files m1 s'(3))
    ultimately show ?thesis using k g Some u s'(2) by blast
  qed
qed

text \<open>
  A fresh session and the update the application makes after creating it, with one unknown
  name added and a write that succeeds; and the same update for an identifier the store
  does not have.
\<close>

theorem update_session_effect_witness:
  "known (holding (created [''p1'', ''p2''] 2)) ''s1'' \<and>
   (\<exists>s m1 s' m2.
      get_session (holding (created [''p1'', ''p2''] 2)) ''s1'' = Returns (Some s, m1) \<and>
      update_session Written (holding (created [''p1'', ''p2''] 2)) ''s1''
          [(''starting_image_path'', PStr ''uploads/s1/image.jpg''), (''colour'', PInt 3)]
        = Returns (True, m2) \<and>
      in_memory_sessions m2 ''s1'' = Some s' \<and>
      session_files m2 ''s1'' = Some (Doc (to_dict s')) \<and>
      asdict s' ''starting_image_path'' = Some (PStr ''uploads/s1/image.jpg'') \<and>
      asdict s' ''num_clips'' = Some (PInt 2) \<and> asdict s' ''colour'' = None) \<and>
   \<not> known (holding (created [''p1'', ''p2''] 2)) ''s2'' \<and>
   update_session Written (holding (created [''p1'', ''p2''] 2)) ''s2''
       [(''starting_image_path'', PStr ''uploads/s1/image.jpg''), (''colour'', PInt 3)]
     = Returns (False, holding (created [''p1'', ''p2''] 2))"
proof -
  let ?m = "holding (created [''p1'', ''p2''] 2)"
  let ?ups = "[(''starting_image_path'', PStr ''uploads/s1/image.jpg''), (''colour'', PInt 3)]"
  have t: "list_all typed_update ?ups"
    by (simp add: typed_update_def parameter_names_def is_class_attribute_def method_names_def)
  have d: "distinct (map fst ?ups)" by simp
  have g1: "get_session ?m ''s1'' \<noteq> Unmodelled"
    by (simp add: get_session_def)
  have g2: "get_session ?m ''s2'' \<noteq> Unmodelled"
    by (simp add: get_session_def)
  have k1: "known ?m ''s1''"
    by (simp add: known_def)
  have k2: "\<not> known ?m ''s2''"
    by (simp add: known_def)
  have sid: "\<And>s m1. get_session ?m ''s1'' = Returns (Some s, m1) \<Longrightarrow>
               session_id s = ''s1'' \<and> asdict s ''num_clips'' = Some (PInt 2)"
    by (auto simp: get_session_def asdict_def)
  from update_session_effect [OF t d g1, of Written] k1 obtain s m1 s' m2 where
    a: "get_session ?m ''s1'' = Returns (Some s, m1)"
      "update_session Written ?m ''s1'' ?ups = Returns (True, m2)"
      "asdict s' = asdict s ++ (map_of ?ups |` set field_names)"
      "in_memory_sessions m2 = (in_memory_sessions ?m)(''s1'' \<mapsto> s')"
      "session_files m2 = (session_files ?m)(session_id s \<mapsto> Doc (to_dict s'))"
    by auto
  from a(3) sid [OF a(1)]
  have f: "asdict s' ''starting_image_path'' = Some (PStr ''uploads/s1/image.jpg'')"
    "asdict s' ''num_clips'' = Some (PInt 2)" "asdict s' ''colour'' = None"
    by (simp_all add: field_names_def map_add_def restrict_map_def asdict_def)
  from a(4,5) sid [OF a(1)] have "in_memory_sessions m2 ''s1'' = Some s'"
    "session_files m2 ''s1'' = Some (Doc (to_dict s'))" by simp_all
  with a(1,2) f have "\<exists>s m1 s' m2.
      get_session ?m ''s1'' = Returns (Some s, m1) \<and>
      update_session Written ?m ''s1'' ?ups = Returns (True, m2) \<and>
      in_memory_sessions m2 ''s1'' = Some s' \<and>
      session_files m2 ''s1'' = Some (Doc (to_dict s')) \<and>
      asdict s' ''starting_image_path'' = Some (PStr ''uploads/s1/image.jpg'') \<and>
      asdict s' ''num_clips'' = Some (PInt 2) \<and> asdict s' ''colour'' = None"
    by blast
  moreover from update_session_effect [OF t d g2, of Written] k2
  have "update_session Written ?m ''s2'' ?ups = Returns (False, ?m)" by blast
  ultimately show ?thesis using k1 k2 by blast
qed

text \<open>
  C7 as stated fails in two ways. The record is not always persisted again: the write of
  the file may fail, the error is caught inside \<open>save_session\<close>, and \<open>update_session\<close>
  returns True all the same, with the old record still in the file, or with no record in
  it, although the record in the cache has changed. And not every named field is
  overwritten: the keyword \<open>session_id\<close> is the method's own parameter, so a call that
  names this field raises a TypeError instead of returning success.
\<close>

theorem update_session_not_persisted:
  "update_session OpenFailed (holding (created [''p1'', ''p2''] 2)) ''s1''
       [(''scene_description'', PStr ''a dog'')] =
     Returns (True,
       \<lparr>in_memory_sessions =
          [''s1'' \<mapsto> (created [''p1'', ''p2''] 2)\<lparr>scene_description := ''a dog''\<rparr>],
        session_files = [''s1'' \<mapsto> Doc (to_dict (created [''p1'', ''p2''] 2))]\<rparr>) \<and>
   to_dict ((created [''p1'', ''p2''] 2)\<lparr>scene_description := ''a dog''\<rparr>) \<noteq>
     to_dict (created [''p1'', ''p2''] 2) \<and>
   update_session Truncated (holding (created [''p1'', ''p2''] 2)) ''s1''
       [(''scene_description'', PStr ''a dog'')] =
     Returns (True,
       \<lparr>in_memory_sessions =
          [''s1'' \<mapsto> (created [''p1'', ''p2''] 2)\<lparr>scene_description := ''a dog''\<rparr>],
        session_files = [''s1'' \<mapsto> NotAnObject]\<rparr>) \<and>
   known (holding (created [''p1'', ''p2''] 2)) ''s1'' \<and>
   update_session Written (holding (created [''p1'', ''p2''] 2)) ''s1''
       [(''session_id'', PStr ''s2'')] = Raises TypeError"
proof -
  let ?s = "created [''p1'', ''p2''] 2"
  have a: "update_session OpenFailed (holding ?s) ''s1''
             [(''scene_description'', PStr ''a dog'')] =
           Returns (True,
             \<lparr>in_memory_sessions = [''s1'' \<mapsto> ?s\<lparr>scene_description := ''a dog''\<rparr>],
              session_files = [''s1'' \<mapsto> Doc (to_dict ?s)]\<rparr>)"
    by (simp add: update_session_def parameter_names_def get_session_cached hasattr_def
        is_field_def field_names_def setattr_def save_session_def)
  have b: "update_session Truncated (holding ?s) ''s1''
             [(''scene_description'', PStr ''a dog'')] =
           Returns (True,
             \<lparr>in_memory_sessions = [''s1'' \<mapsto> ?s\<lparr>scene_description := ''a dog''\<rparr>],
              session_files = [''s1'' \<mapsto> NotAnObject]\<rparr>)"
    by (simp add: update_session_def parameter_names_def get_session_cached hasattr_def
        is_field_def field_names_def setattr_def save_session_def)
  have "to_dict (?s\<lparr>scene_description := ''a dog''\<rparr>) ''scene_description'' \<noteq>
        to_dict ?s ''scene_description''"
    by (simp add: to_dict_def pop_def asdict_def)
  then have c: "to_dict (?s\<lparr>scene_description := ''a dog''\<rparr>) \<noteq> to_dict ?s"
    by (rule contrapos_nn) (rule arg_cong [where f = "\<lambda>d. d ''scene_description''"])
  have k: "known (holding ?s) ''s1''"
    by (simp add: known_def)
  have e: "update_session Written (holding ?s) ''s1'' [(''session_id'', PStr ''s2'')] =
           Raises TypeError"
    by (simp add: update_session_def parameter_names_def)
  from a b c k e show ?thesis by blast
qed





section \<open>The fallback plan\<close>

lemma digit_char_digit:
  assumes "d < 10"
  shows "digit_value (digit_char d) = d \<and> digit_char d \<in> set ''0123456789''"
proof -
  from assms consider "d = 0" | "d = 1" | "d = 2" | "d = 3" | "d = 4" | "d = 5" | "d = 6"
    | "d = 7" | "d = 8" | "d = 9" by atomize_elim arith
  then show ?thesis
    by cases (simp_all add: digit_value_def digit_char_def)
qed

text \<open>\<open>str_nat n\<close> consists of decimal digits, and read in base ten it is \<open>n\<close>.\<close>

lemma str_nat_decimal:
  "foldl (\<lambda>a c. 10 * a + digit_value c) 0 (str_nat n) = n \<and>
   set (str_nat n) \<subseteq> set ''0123456789''"
proof (induction n rule: str_nat.induct)
  case (1 n)
  show ?case
  proof (cases "n < 10")
    case True
    with digit_char_digit [of n] show ?thesis by (simp add: str_nat.simps [of n])
  next
    case False
    with 1 digit_char_digit [of "n mod 10"] show ?thesis
      by (simp add: str_nat.simps [of n])
  qed
qed

lemma fallback_prompts_length: "0 \<le> n \<Longrightarrow> int (length (fallback_prompts scene n)) = n"
  by (simp add: fallback_prompts_def py_range_def)

lemma fallback_prompts_nth:
  assumes "1 \<le> i" and "i \<le> n"
  shows "fallback_prompts scene n ! nat (i - 1) =
           scene @ '' (deel '' @ str_int i @ '' van '' @ str_int n @ '')''"
proof -
  from assms have "nat (i - 1) < nat n" by simp
  then have "fallback_prompts scene n ! nat (i - 1) =
      scene @ '' (deel '' @ str_int (int (nat (i - 1)) + 1) @ '' van '' @ str_int n @ '')''"
    by (simp add: fallback_prompts_def py_range_def)
  with assms show ?thesis by simp
qed

text \<open>
  C4. When the primary strategy raises, the planner returns the fallback prompts: for a
  clip count \<open>n\<close> of at least 1 there are exactly \<open>n\<close> of them, each contains the scene
  description, and the \<open>i\<close>-th (\<open>i\<close> from 1 to \<open>n\<close>) ends with "(deel i van n)", the
  numbers in decimal.
\<close>

theorem fallback_plan:
  assumes "1 \<le> n" and "call_openai_gpt loads post key scene n = Raises e"
  shows "generate_clip_plan loads post key scene n = map JStr (fallback_prompts scene n) \<and>
         int (length (fallback_prompts scene n)) = n \<and>
         (\<forall>i. 1 \<le> i \<and> i \<le> n \<longrightarrow>
            sublist scene (fallback_prompts scene n ! nat (i - 1)) \<and>
            suffix (''(deel '' @ str_int i @ '' van '' @ str_int n @ '')'')
              (fallback_prompts scene n ! nat (i - 1)))"
proof (intro conjI allI impI)
  from assms(2) show "generate_clip_plan loads post key scene n = map JStr (fallback_prompts scene n)"
    by (simp add: generate_clip_plan_def)
  from assms(1) show "int (length (fallback_prompts scene n)) = n"
    by (simp add: fallback_prompts_length)
next
  fix i assume i: "1 \<le> i \<and> i \<le> n"
  then have nth: "fallback_prompts scene n ! nat (i - 1) =
           scene @ '' (deel '' @ str_int i @ '' van '' @ str_int n @ '')''"
    by (simp add: fallback_prompts_nth)
  show "sublist scene (fallback_prompts scene n ! nat (i - 1))"
    unfolding nth by (rule prefix_imp_sublist) simp
  have "fallback_prompts scene n ! nat (i - 1) =
          (scene @ '' '') @ (''(deel '' @ str_int i @ '' van '' @ str_int n @ '')'')"
    unfolding nth by simp
  then show "suffix (''(deel '' @ str_int i @ '' van '' @ str_int n @ '')'')
              (fallback_prompts scene n ! nat (i - 1))"
    unfolding suffix_def by blast
qed

lemma fallback_prompts_scenario:
  "fallback_prompts ''a cat exploring a garden'' 3 =
     [''a cat exploring a garden (deel 1 van 3)'', ''a cat exploring a garden (deel 2 van 3)'',
      ''a cat exploring a garden (deel 3 van 3)'']"
  by (simp add: fallback_prompts_def py_range_def str_int_def str_nat.simps digit_char_def
      upt_rec)

text \<open>The scenario of the specification: "a cat exploring a garden", three clips.\<close>

theorem fallback_plan_witness:
  "generate_clip_plan (\<lambda>text. None) (\<lambda>key scene n. RequestFailed RuntimeError) ''key''
       ''a cat exploring a garden'' 3 =
     [JStr ''a cat exploring a garden (deel 1 van 3)'',
      JStr ''a cat exploring a garden (deel 2 van 3)'',
      JStr ''a cat exploring a garden (deel 3 van 3)''] \<and>
   sublist ''a cat exploring a garden'' (fallback_prompts ''a cat exploring a garden'' 3 ! 1) \<and>
   suffix ''(deel 2 van 3)'' (fallback_prompts ''a cat exploring a garden'' 3 ! 1)"
proof -
  have n: "(1::int) \<le> 3" by simp
  have r: "call_openai_gpt (\<lambda>text. None) (\<lambda>key scene n. RequestFailed RuntimeError) ''key''
             ''a cat exploring a garden'' 3 = Raises RuntimeError"
    by (simp add: call_openai_gpt_def)
  have d: "str_int 2 = ''2''" "str_int 3 = ''3''"
    by (simp_all add: str_int_def str_nat.simps digit_char_def)
  note th = fallback_plan [OF n r]
  from th have "generate_clip_plan (\<lambda>text. None) (\<lambda>key scene n. RequestFailed RuntimeError) ''key''
       ''a cat exploring a garden'' 3 = map JStr (fallback_prompts ''a cat exploring a garden'' 3)"
    by blast
  moreover from th [THEN conjunct2, THEN conjunct2, rule_format, of 2]
  have "sublist ''a cat exploring a garden''
        (fallback_prompts ''a cat exploring a garden'' 3 ! nat (2 - 1)) \<and>
      suffix (''(deel '' @ str_int 2 @ '' van '' @ str_int 3 @ '')'')
        (fallback_prompts ''a cat exploring a garden'' 3 ! nat (2 - 1))"
    by simp
  ultimately show ?thesis
    by (simp add: d fallback_prompts_scenario)
qed

text \<open>
  The planner's contract: whichever strategy answers, the plan has as many entries as
  clips were asked for.
\<close>

lemma call_openai_gpt_length:
  assumes "call_openai_gpt loads post key scene n = Returns ps"
  shows "int (length ps) = n"
  using assms
  by (auto simp: call_openai_gpt_def Let_def split: api_reply.splits if_splits list.splits
      option.splits json.splits elim!: bindE)

theorem generate_clip_plan_length:
  assumes "0 \<le> n"
  shows "int (length (generate_clip_plan loads post key scene n)) = n"
proof (cases "call_openai_gpt loads post key scene n")
  case (Returns ps)
  then show ?thesis
    by (simp add: generate_clip_plan_def call_openai_gpt_length)
next
  case (Raises e)
  with assms show ?thesis
    by (simp add: generate_clip_plan_def fallback_prompts_length)
next
  case Unmodelled
  with assms show ?thesis
    by (simp add: generate_clip_plan_def fallback_prompts_length)
qed

theorem generate_clip_plan_length_witness:
  "int (length (generate_clip_plan (\<lambda>text. None) (\<lambda>key scene n. Content ''no json'') ''key''
                  ''a cat exploring a garden'' 3)) = 3"
proof -
  have "(0::int) \<le> 3" by simp
  then show ?thesis by (rule generate_clip_plan_length)
qed

section \<open>Final concatenation\<close>

lemma sublist_single: "sublist [x] ys \<longleftrightarrow> x \<in> set ys"
  by (induction ys) (auto simp: sublist_Cons_right)

lemma str_int_digit: "str_int 1 = ''1''" "str_int 2 = ''2''" "str_int 3 = ''3''"
  by (simp_all add: str_int_def str_nat.simps digit_char_def)

text \<open>
  C3, as amended. For a session with fewer uploaded videos than its clip count,
  \<open>is_complete\<close> is false and \<open>generate_final\<close> refuses: it runs no external tool, flashes
  the fixed message "Not all videos have been uploaded" and redirects to the plan page.
\<close>

theorem generate_final_incomplete:
  assumes "get_session m sid = Returns (Some s, m1)"
    and "int (length (uploaded_videos s)) < num_clips s"
  shows "is_complete m sid = Returns (False, m1) \<and>
         generate_final ev m sid =
           Returns (\<lparr>flashes = [(''Not all videos have been uploaded'', ''error'')],
                     redirect = Plan sid, tools = []\<rparr>, m1)"
proof -
  from assms(1) have "in_memory_sessions m1 sid = Some s"
    by (simp add: get_session_Some)
  then have g1: "get_session m1 sid = Returns (Some s, m1)"
    by (rule get_session_cached)
  from assms have c: "is_complete m sid = Returns (False, m1)"
    by (simp add: is_complete_def)
  from g1 assms(2) have c1: "is_complete m1 sid = Returns (False, m1)"
    by (simp add: is_complete_def)
  from assms(1) c1 have "generate_final ev m sid =
           Returns (\<lparr>flashes = [(''Not all videos have been uploaded'', ''error'')],
                     redirect = Plan sid, tools = []\<rparr>, m1)"
    by (simp add: generate_final_def)
  with c show ?thesis by simp
qed

text \<open>A session of two clips with nothing uploaded.\<close>

theorem generate_final_incomplete_witness:
  "generate_final tools_ok (holding (created [''p1'', ''p2''] 2)) ''s1'' =
     Returns (\<lparr>flashes = [(''Not all videos have been uploaded'', ''error'')],
               redirect = Plan ''s1'', tools = []\<rparr>, holding (created [''p1'', ''p2''] 2))"
proof -
  let ?s = "created [''p1'', ''p2''] 2"
  have g: "get_session (holding ?s) ''s1'' = Returns (Some ?s, holding ?s)"
    by (simp add: get_session_def)
  have l: "int (length (uploaded_videos ?s)) < num_clips ?s" by simp
  from generate_final_incomplete [OF g l] show ?thesis by (rule conjunct2)
qed

text \<open>
  C3 as stated fails: the refusal does not say which steps are missing. A session of two
  clips with nothing uploaded misses steps 1 and 2, and the message flashed names neither;
  the same session with step 1 uploaded misses step 2 only and gets the same response.
\<close>

theorem generate_final_names_no_step:
  "generate_final tools_ok (holding (created [''p1'', ''p2''] 2)) ''s1'' =
     Returns (\<lparr>flashes = [(''Not all videos have been uploaded'', ''error'')],
               redirect = Plan ''s1'', tools = []\<rparr>, holding (created [''p1'', ''p2''] 2)) \<and>
   missing_steps (created [''p1'', ''p2''] 2) = [1, 2] \<and>
   \<not> reports_missing
        \<lparr>flashes = [(''Not all videos have been uploaded'', ''error'')],
         redirect = Plan ''s1'', tools = []\<rparr> (created [''p1'', ''p2''] 2) \<and>
   generate_final tools_ok
       (holding ((created [''p1'', ''p2''] 2)
          \<lparr>current_step := 2, uploaded_videos := [''uploads/s1/step_1_silent.mp4''],
           last_frames := [''uploads/s1/step_1_frame.jpg'']\<rparr>)) ''s1'' =
     Returns (\<lparr>flashes = [(''Not all videos have been uploaded'', ''error'')],
               redirect = Plan ''s1'', tools = []\<rparr>,
              holding ((created [''p1'', ''p2''] 2)
                \<lparr>current_step := 2, uploaded_videos := [''uploads/s1/step_1_silent.mp4''],
                 last_frames := [''uploads/s1/step_1_frame.jpg'']\<rparr>)) \<and>
   missing_steps ((created [''p1'', ''p2''] 2)
       \<lparr>current_step := 2, uploaded_videos := [''uploads/s1/step_1_silent.mp4''],
        last_frames := [''uploads/s1/step_1_frame.jpg'']\<rparr>) = [2]"
proof -
  let ?a = "created [''p1'', ''p2''] 2"
  let ?b = "?a\<lparr>current_step := 2, uploaded_videos := [''uploads/s1/step_1_silent.mp4''],
              last_frames := [''uploads/s1/step_1_frame.jpg'']\<rparr>"
  let ?refusal = "\<lparr>flashes = [(''Not all videos have been uploaded'', ''error'')],
                   redirect = Plan ''s1'', tools = []\<rparr>"
  have ra: "generate_final tools_ok (holding ?a) ''s1'' = Returns (?refusal, holding ?a)"
    by (simp add: generate_final_def is_complete_def get_session_cached)
  have rb: "generate_final tools_ok (holding ?b) ''s1'' = Returns (?refusal, holding ?b)"
    by (simp add: generate_final_def is_complete_def get_session_cached)
  have ma: "missing_steps ?a = [1, 2]"
    by (simp add: missing_steps_def py_range_def upt_rec)
  have mb: "missing_steps ?b = [2]"
    by (simp add: missing_steps_def py_range_def upt_rec)
  have "\<not> sublist (str_int 1) ''Not all videos have been uploaded''"
    by (simp add: str_int_digit sublist_single)
  then have n: "\<not> reports_missing ?refusal ?a"
    unfolding reports_missing_def ma by simp
  from ra ma n rb mb show ?thesis by (intro conjI)
qed

text \<open>
  \<open>is_complete\<close> is true exactly when the session is known and has at least as many
  uploaded videos as clips.
\<close>

theorem is_complete_iff:
  assumes "get_session m sid = Returns (r, m1)"
  shows "is_complete m sid =
           Returns (case r of None \<Rightarrow> False
                    | Some s \<Rightarrow> num_clips s \<le> int (length (uploaded_videos s)), m1)"
  using assms by (simp add: is_complete_def split: option.splits)

theorem is_complete_iff_witness:
  "is_complete (holding (created [''p1'', ''p2''] 2)) ''s1'' =
     Returns (False, holding (created [''p1'', ''p2''] 2)) \<and>
   is_complete (holding (created [] 0)) ''s1'' = Returns (True, holding (created [] 0))"
proof -
  have a: "get_session (holding (created [''p1'', ''p2''] 2)) ''s1'' =
             Returns (Some (created [''p1'', ''p2''] 2), holding (created [''p1'', ''p2''] 2))"
    by (simp add: get_session_def)
  have b: "get_session (holding (created [] 0)) ''s1'' =
             Returns (Some (created [] 0), holding (created [] 0))"
    by (simp add: get_session_def)
  from is_complete_iff [OF a] is_complete_iff [OF b] show ?thesis by simp
qed

section \<open>Upload\<close>

lemma allowed_clip: "allowed_file ''clip.mp4'' ALLOWED_VIDEO_EXTENSIONS"
  by (simp add: allowed_file_def ALLOWED_VIDEO_EXTENSIONS_def after_last_dot_def lower_def
      lower_char_def)

text \<open>
  The handler never looks at the step number except to name the files and to choose the
  page it redirects to: with an allowed file that is saved and a media tool that succeeds,
  every upload to a cached session appends one video.
\<close>

lemma upload_any_step:
  assumes "in_memory_sessions m sid = Some s"
    and "filename \<noteq> []"
    and "allowed_file filename ALLOWED_VIDEO_EXTENSIONS"
    and "\<And>c. ffmpeg_ok ev c"
    and "\<And>step. io_error ev step = None"
  shows "\<exists>r m2 s'. upload ev m sid step_num (Some filename) = Returns (r, m2) \<and>
           in_memory_sessions m2 sid = Some s' \<and>
           length (uploaded_videos s') = Suc (length (uploaded_videos s)) \<and>
           length (last_frames s') = Suc (length (last_frames s))"
  using assms
  by (simp add: upload_def run_tool_def get_session_cached add_uploaded_video_def
      save_session_cache Let_def)

text \<open>
  C2 at a failing input. A fresh session of three clips receives an upload for step 3. The
  handler compares the step number with nothing: it runs the tool twice, appends the video
  and the frame of "step 3" as the first entries of the session and advances the current
  step to 2.
\<close>

theorem upload_skips_ahead:
  "upload tools_ok (holding (created [''p1'', ''p2'', ''p3''] 3)) ''s1'' 3 (Some ''clip.mp4'') =
   Returns
     (\<lparr>flashes = [], redirect = Combine ''s1'',
       tools = [StripAudio ''uploads/s1/step_3.mp4'' ''uploads/s1/step_3_silent.mp4'',
                ExtractLastFrame ''uploads/s1/step_3_silent.mp4''
                  ''uploads/s1/step_3_frame.jpg'']\<rparr>,
      holding ((created [''p1'', ''p2'', ''p3''] 3)
        \<lparr>current_step := 2, uploaded_videos := [''uploads/s1/step_3_silent.mp4''],
         last_frames := [''uploads/s1/step_3_frame.jpg'']\<rparr>))"
  by (simp add: upload_def run_tool_def get_session_cached add_uploaded_video_def
      save_session_def Let_def allowed_clip str_int_digit path_join_def UPLOAD_FOLDER_def)

text \<open>
  The scenario of the specification: after step 1 of a fresh session is uploaded, the
  current step is 2, there is one video and one frame, and the image of the current step
  is that frame.
\<close>

theorem upload_first_step:
  "upload tools_ok (holding (created [''p1'', ''p2''] 2)) ''s1'' 1 (Some ''clip.mp4'') =
   Returns
     (\<lparr>flashes = [], redirect = Step ''s1'' 2,
       tools = [StripAudio ''uploads/s1/step_1.mp4'' ''uploads/s1/step_1_silent.mp4'',
                ExtractLastFrame ''uploads/s1/step_1_silent.mp4''
                  ''uploads/s1/step_1_frame.jpg'']\<rparr>,
      holding ((created [''p1'', ''p2''] 2)
        \<lparr>current_step := 2, uploaded_videos := [''uploads/s1/step_1_silent.mp4''],
         last_frames := [''uploads/s1/step_1_frame.jpg'']\<rparr>)) \<and>
   get_current_image_path
     (holding ((created [''p1'', ''p2''] 2)
        \<lparr>current_step := 2, uploaded_videos := [''uploads/s1/step_1_silent.mp4''],
         last_frames := [''uploads/s1/step_1_frame.jpg'']\<rparr>)) ''s1'' =
   Returns (Some ''uploads/s1/step_1_frame.jpg'',
      holding ((created [''p1'', ''p2''] 2)
        \<lparr>current_step := 2, uploaded_videos := [''uploads/s1/step_1_silent.mp4''],
         last_frames := [''uploads/s1/step_1_frame.jpg'']\<rparr>))"
  by (simp add: upload_def run_tool_def get_session_cached add_uploaded_video_def
      save_session_def Let_def allowed_clip str_int_digit path_join_def UPLOAD_FOLDER_def
      get_current_image_path_def)

section \<open>The primary planner\<close>

text \<open>Nothing is stripped from a string that begins with no whitespace character.\<close>

lemma lstrip_none:
  assumes "\<forall>w \<in> set chars. w \<noteq> [] \<longrightarrow> hd w \<noteq> c"
  shows "lstrip chars (c # cs) = c # cs"
proof -
  have "find (\<lambda>w. w \<noteq> [] \<and> prefix w (c # cs)) chars = None"
    unfolding find_None_iff
  proof (intro notI, elim exE conjE)
    fix w
    assume "w \<in> set chars" and "w \<noteq> []" and "prefix w (c # cs)"
    with assms show False by (cases w) auto
  qed
  then show ?thesis by (simp add: lstrip.simps)
qed

lemma strip_array: "strip ''[1, 2, 3]'' = ''[1, 2, 3]''"
  by (simp add: strip_def lstrip_none whitespace_def)

text \<open>
  C6 at a failing input. The service answers with the JSON array of the numbers 1, 2, 3
  for three clips: the check passes, since it looks at the list and its length only, and
  the list of numbers is returned.
\<close>

theorem call_openai_gpt_returns_numbers:
  "call_openai_gpt
     (\<lambda>text. if text = ''[1, 2, 3]'' then Some (JArr [JInt 1, JInt 2, JInt 3]) else None)
     (\<lambda>key scene n. Content ''[1, 2, 3]'') ''key'' ''a cat exploring a garden'' 3 =
   Returns [JInt 1, JInt 2, JInt 3]"
  by (simp add: call_openai_gpt_def strip_array startswith_def fence_def Let_def
      numeral_3_eq_3)

end
